theory Spec2Isabelle
  imports Main "HOL-Library.Word"
begin

section \<open>The VMCI socket client (esx_service/vmci/vmci_client.c)\<close>

text \<open>
  The client exposes one blocking entry point, \<open>Vmci_GetReply\<close>. It resolves a backend by
  name, opens a connection, sends one framed request, reads one framed reply and releases
  the connection. The C code talks to the operating system (sockets, the allocator, the
  standard streams, \<open>errno\<close>); the model threads a \<open>world\<close> through every function, and
  takes the outcome of every system call from an \<open>env\<close> that the theorems quantify over.
\<close>

subsection \<open>Constants\<close>

text \<open>
  \<open>connection_types.h\<close> is not among the sources. The status values are the ones the
  comments of vmci_client.c give ("operations status. 0 is OK", "return success (0) or
  failure (-1)"); \<open>MAGIC\<close> is a field of the environment below.
\<close>

definition CONN_SUCCESS :: int where
  "CONN_SUCCESS = 0"

definition CONN_FAILURE :: int where
  "CONN_FAILURE = - 1"

definition MAXBUF :: nat where
  "MAXBUF = 1024 * 1024"

definition ESX_VMCI_CID :: int where
  "ESX_VMCI_CID = 2"

definition VSOCKET_BE_NAME :: string where
  "VSOCKET_BE_NAME = ''vsocket''"

definition DUMMY_BE_NAME :: string where
  "DUMMY_BE_NAME = ''dummy''"

text \<open>The values of \<open>errno.h\<close> on Linux.\<close>

definition ENXIO :: int where
  "ENXIO = 6"

definition ENOMEM :: int where
  "ENOMEM = 12"

definition EBADMSG :: int where
  "EBADMSG = 74"

definition EAFNOSUPPORT :: int where
  "EAFNOSUPPORT = 97"

definition NUL :: char where
  "NUL = CHR 0x00"

subsection \<open>Data\<close>

text \<open>A pointer into the heap; 0 is \<open>NULL\<close>.\<close>

type_synonym ptr = nat

record sockaddr_vm =
  svm_family :: int
  svm_cid :: int
  svm_port :: int

record be_sock_id =
  sock_id :: int
  addr :: sockaddr_vm

text \<open>
  \<open>msg\<close> holds the bytes at the \<open>const char *\<close>; the terminating NUL is the end of the list
  (or an earlier \<open>NUL\<close> in it).
\<close>

record be_request =
  mlen :: "32 word"
  msg :: string

record be_answer =
  buf :: ptr

text \<open>
  Every call that leaves the process is recorded with its arguments and its result. The
  two 4-byte fields of a frame travel as machine words in the byte order of the host, so
  they are kept as words.
\<close>

datatype event =
    GetAFValue int
  | Socket int int
  | Connect int sockaddr_vm int
  | SendU32 int "32 word" int
  | SendBuf int string nat int
  | RecvU32 int int
  | RecvBuf int ptr nat int
  | Close int
  | Calloc nat nat ptr
  | Strdup string ptr
  | Free ptr
  | Stdout string
  | Stderr string

text \<open>
  The world: the calls made so far, \<open>errno\<close>, the \<open>static int af\<close> of \<open>vsock_get_family\<close>,
  the heap, and how many sends, receives and allocations have been made (the position in
  the environment's answers).
\<close>

record world =
  trace :: "event list"
  errno :: int
  af_static :: int
  heap :: "ptr \<Rightarrow> string option"
  nsend :: nat
  nrecv :: nat
  nalloc :: nat

text \<open>
  The environment: the constant \<open>MAGIC\<close> of the missing header, the indeterminate content
  of the local \<open>be_sock_id id\<close> of \<open>host_request\<close>, and the outcome of each system call. A
  pair is (return value, the \<open>errno\<close> it sets when the return value is -1); for \<open>send\<close>
  and \<open>recv\<close> the return value is the one \<open>int ret\<close> holds after the call. The k-th
  \<open>recv\<close> leaves \<open>recv_u32 k\<close> in a 4-byte destination and delivers the bytes \<open>recv_bytes k\<close>
  into a buffer.
\<close>

record env =
  MAGIC :: "32 word"
  stack_id :: be_sock_id
  getaf_val :: int
  socket_res :: "int \<times> int"
  connect_res :: "int \<times> int"
  close_res :: "int \<times> int"
  send_res :: "nat \<Rightarrow> int \<times> int"
  recv_res :: "nat \<Rightarrow> int \<times> int"
  recv_u32 :: "nat \<Rightarrow> 32 word"
  recv_bytes :: "nat \<Rightarrow> string"
  alloc_res :: "nat \<Rightarrow> ptr"

subsection \<open>The C library and the system calls\<close>

definition cstr :: "string \<Rightarrow> string" where
  "cstr s = takeWhile (\<lambda>c. c \<noteq> NUL) s"

fun strnlen :: "string \<Rightarrow> nat \<Rightarrow> nat" where
  "strnlen [] n = 0"
| "strnlen (c # cs) n = (if n = 0 \<or> c = NUL then 0 else Suc (strnlen cs (n - 1)))"

fun strcmp :: "string \<Rightarrow> string \<Rightarrow> int" where
  "strcmp [] [] = 0"
| "strcmp [] (b # bs) = 0 - of_char b"
| "strcmp (a # as) [] = of_char a"
| "strcmp (a # as) (b # bs) =
     (if a \<noteq> b then of_char a - of_char b
      else if a = NUL then 0
      else strcmp as bs)"

definition emit :: "event \<Rightarrow> world \<Rightarrow> world" where
  "emit e w = w\<lparr>trace := trace w @ [e]\<rparr>"

definition fail_errno :: "int \<times> int \<Rightarrow> world \<Rightarrow> world" where
  "fail_errno res w = (if fst res = - 1 then w\<lparr>errno := snd res\<rparr> else w)"

definition VMCISock_GetAFValue :: "env \<Rightarrow> world \<Rightarrow> int \<times> world" where
  "VMCISock_GetAFValue env w = (getaf_val env, emit (GetAFValue (getaf_val env)) w)"

definition sys_socket :: "env \<Rightarrow> int \<Rightarrow> world \<Rightarrow> int \<times> world" where
  "sys_socket env fam w =
     (let res = socket_res env
      in (fst res, fail_errno res (emit (Socket fam (fst res)) w)))"

definition sys_connect :: "env \<Rightarrow> int \<Rightarrow> sockaddr_vm \<Rightarrow> world \<Rightarrow> int \<times> world" where
  "sys_connect env fd sa w =
     (let res = connect_res env
      in (fst res, fail_errno res (emit (Connect fd sa (fst res)) w)))"

definition sys_close :: "env \<Rightarrow> int \<Rightarrow> world \<Rightarrow> world" where
  "sys_close env fd w = fail_errno (close_res env) (emit (Close fd) w)"

definition sys_send_u32 :: "env \<Rightarrow> int \<Rightarrow> 32 word \<Rightarrow> world \<Rightarrow> int \<times> world" where
  "sys_send_u32 env fd v w =
     (let res = send_res env (nsend w)
      in (fst res, fail_errno res (emit (SendU32 fd v (fst res)) (w\<lparr>nsend := Suc (nsend w)\<rparr>))))"

text \<open>\<open>send(fd, m, len, 0)\<close>: the bytes offered are the first \<open>len\<close> bytes at \<open>m\<close>.\<close>

definition sys_send_buf :: "env \<Rightarrow> int \<Rightarrow> string \<Rightarrow> nat \<Rightarrow> world \<Rightarrow> int \<times> world" where
  "sys_send_buf env fd m len w =
     (let res = send_res env (nsend w)
      in (fst res,
          fail_errno res
            (emit (SendBuf fd (take len (m @ [NUL])) len (fst res)) (w\<lparr>nsend := Suc (nsend w)\<rparr>))))"

text \<open>\<open>recv(fd, &b, 4, 0)\<close>: returns the result and the value \<open>b\<close> holds afterwards.\<close>

definition sys_recv_u32 :: "env \<Rightarrow> int \<Rightarrow> 32 word \<Rightarrow> world \<Rightarrow> int \<times> 32 word \<times> world" where
  "sys_recv_u32 env fd b w =
     (let res = recv_res env (nrecv w)
      in (fst res,
          (if fst res \<le> 0 then b else recv_u32 env (nrecv w)),
          fail_errno res (emit (RecvU32 fd (fst res)) (w\<lparr>nrecv := Suc (nrecv w)\<rparr>))))"

definition store_bytes :: "ptr \<Rightarrow> string \<Rightarrow> world \<Rightarrow> world" where
  "store_bytes p data w =
     (case heap w p of
        None \<Rightarrow> w
      | Some old \<Rightarrow> w\<lparr>heap := (heap w)(p \<mapsto> take (length old) (data @ drop (length data) old))\<rparr>)"

text \<open>\<open>recv(fd, p, len, 0)\<close>: at most \<open>len\<close> bytes, as many as the call returns, land at \<open>p\<close>.\<close>

definition sys_recv_buf :: "env \<Rightarrow> int \<Rightarrow> ptr \<Rightarrow> nat \<Rightarrow> world \<Rightarrow> int \<times> world" where
  "sys_recv_buf env fd p len w =
     (let res = recv_res env (nrecv w);
          got = take (min (nat (fst res)) len) (recv_bytes env (nrecv w))
      in (fst res,
          fail_errno res
            (emit (RecvBuf fd p len (fst res)) (store_bytes p got (w\<lparr>nrecv := Suc (nrecv w)\<rparr>)))))"

definition sys_calloc :: "env \<Rightarrow> nat \<Rightarrow> nat \<Rightarrow> world \<Rightarrow> ptr \<times> world" where
  "sys_calloc env nmemb sz w =
     (let p = alloc_res env (nalloc w);
          w1 = emit (Calloc nmemb sz p) (w\<lparr>nalloc := Suc (nalloc w)\<rparr>)
      in if p = 0 then (0, w1\<lparr>errno := ENOMEM\<rparr>)
         else (p, w1\<lparr>heap := (heap w1)(p \<mapsto> replicate (nmemb * sz) NUL)\<rparr>))"

definition sys_strdup :: "env \<Rightarrow> string \<Rightarrow> world \<Rightarrow> ptr \<times> world" where
  "sys_strdup env s w =
     (let p = alloc_res env (nalloc w);
          w1 = emit (Strdup s p) (w\<lparr>nalloc := Suc (nalloc w)\<rparr>)
      in if p = 0 then (0, w1\<lparr>errno := ENOMEM\<rparr>)
         else (p, w1\<lparr>heap := (heap w1)(p \<mapsto> cstr s @ [NUL])\<rparr>))"

definition sys_free :: "ptr \<Rightarrow> world \<Rightarrow> world" where
  "sys_free p w = emit (Free p) (w\<lparr>heap := (heap w)(p := None)\<rparr>)"

text \<open>
  \<open>printf\<close> and \<open>fprintf(stderr, ...)\<close>: the text written. A \<open>%s\<close> is rendered; the numeric
  arguments of the two messages on stderr are not (the format is kept as it is).
\<close>

definition printf :: "string \<Rightarrow> world \<Rightarrow> world" where
  "printf s w = emit (Stdout s) w"

definition fprintf_stderr :: "string \<Rightarrow> world \<Rightarrow> world" where
  "fprintf_stderr s w = emit (Stderr s) w"

subsection \<open>The backend interface\<close>

record be_funcs =
  shortName :: string
  name :: string
  init_sock :: "env \<Rightarrow> be_sock_id \<Rightarrow> int \<Rightarrow> int \<Rightarrow> world \<Rightarrow> int \<times> be_sock_id \<times> world"
  release_sock :: "env \<Rightarrow> be_sock_id \<Rightarrow> world \<Rightarrow> world"
  get_reply :: "env \<Rightarrow> be_sock_id \<Rightarrow> be_request \<Rightarrow> be_answer \<Rightarrow> world \<Rightarrow> int \<times> be_answer \<times> world"

subsection \<open>The dummy backend\<close>

definition dummy_init :: "env \<Rightarrow> be_sock_id \<Rightarrow> int \<Rightarrow> int \<Rightarrow> world \<Rightarrow> int \<times> be_sock_id \<times> world" where
  "dummy_init env id0 cid port w =
     (CONN_SUCCESS, id0, printf ''dummy_init: connected.\<newline>'' w)"

definition dummy_release :: "env \<Rightarrow> be_sock_id \<Rightarrow> world \<Rightarrow> world" where
  "dummy_release env id0 w = printf ''dummy_release: released.\<newline>'' w"

definition dummy_get_reply ::
  "env \<Rightarrow> be_sock_id \<Rightarrow> be_request \<Rightarrow> be_answer \<Rightarrow> world \<Rightarrow> int \<times> be_answer \<times> world" where
  "dummy_get_reply env id0 r a w =
     (let w1 = printf (''dummy_get_reply: got request '' @ cstr (msg r) @ ''.\<newline>'') w;
          w2 = printf ''dummy_get_reply: replying empty (for now).\<newline>'' w1;
          (p, w3) = sys_strdup env ''none'' w2
      in (CONN_SUCCESS, a\<lparr>buf := p\<rparr>, w3))"

subsection \<open>The vsocket backend\<close>

definition vsock_get_family :: "env \<Rightarrow> world \<Rightarrow> int \<times> world" where
  "vsock_get_family env w =
     (if af_static w = - 1
      then (let (v, w1) = VMCISock_GetAFValue env w in (v, w1\<lparr>af_static := v\<rparr>))
      else (af_static w, w))"

definition vsock_release :: "env \<Rightarrow> be_sock_id \<Rightarrow> world \<Rightarrow> world" where
  "vsock_release env id0 w = sys_close env (sock_id id0) w"

definition vsock_init :: "env \<Rightarrow> be_sock_id \<Rightarrow> int \<Rightarrow> int \<Rightarrow> world \<Rightarrow> int \<times> be_sock_id \<times> world" where
  "vsock_init env id0 cid port w =
     (let (fam, w1) = vsock_get_family env w in
      if fam = - 1 then (CONN_FAILURE, id0, w1\<lparr>errno := EAFNOSUPPORT\<rparr>)
      else
        let (sock, w2) = sys_socket env fam w1 in
        if sock = - 1 then (CONN_FAILURE, id0, w2)
        else
          let id1 = id0\<lparr>sock_id := sock\<rparr>;
              id2 = id1\<lparr>addr := \<lparr>svm_family = fam, svm_cid = cid, svm_port = port\<rparr>\<rparr>;
              (ret, w3) = sys_connect env sock (addr id2) w2
          in if ret \<noteq> 0
             then (let old_errno = errno w3;
                       w4 = vsock_release env id2 w3
                   in (CONN_FAILURE, id2, w4\<lparr>errno := old_errno\<rparr>))
             else (CONN_SUCCESS, id2, w3))"

text \<open>
  \<open>int ret\<close> is compared with \<open>sizeof b\<close> (4) and with the \<open>uint32_t\<close> values \<open>r->mlen\<close> and
  \<open>b\<close>; the latter comparisons convert \<open>ret\<close> to \<open>uint32_t\<close>.
\<close>

definition vsock_get_reply ::
  "env \<Rightarrow> be_sock_id \<Rightarrow> be_request \<Rightarrow> be_answer \<Rightarrow> world \<Rightarrow> int \<times> be_answer \<times> world" where
  "vsock_get_reply env s r a w =
     (let (ret, w1) = sys_send_u32 env (sock_id s) (MAGIC env) w in
      if ret = - 1 \<or> ret \<noteq> 4 then (CONN_FAILURE, a, w1)
      else
      let (ret, w2) = sys_send_u32 env (sock_id s) (mlen r) w1 in
      if ret = - 1 \<or> ret \<noteq> 4 then (CONN_FAILURE, a, w2)
      else
      let (ret, w3) = sys_send_buf env (sock_id s) (msg r) (unat (mlen r)) w2 in
      if ret = - 1 \<or> word_of_int ret \<noteq> mlen r then (CONN_FAILURE, a, w3)
      else
      let (ret, b, w4) = sys_recv_u32 env (sock_id s) 0 w3 in
      if ret = - 1 \<or> ret \<noteq> 4 then (CONN_FAILURE, a, w4)
      else if b \<noteq> MAGIC env
      then (CONN_FAILURE, a,
            (fprintf_stderr ''Wrong magic: got 0x%x expected 0x%x\<newline>'' w4)\<lparr>errno := EBADMSG\<rparr>)
      else
      let (ret, b, w5) = sys_recv_u32 env (sock_id s) 0 w4 in
      if ret = - 1 \<or> ret \<noteq> 4
      then (CONN_FAILURE, a, fprintf_stderr ''Failed to receive len: ret %d (%s)\<newline>'' w5)
      else
      let (p, w6) = sys_calloc env 1 (unat b) w5;
          a1 = a\<lparr>buf := p\<rparr>
      in
      if p = 0 then (CONN_FAILURE, a1, w6)
      else
      let (ret, w7) = sys_recv_buf env (sock_id s) p (unat b) w6 in
      if ret = - 1 \<or> word_of_int ret \<noteq> b then (CONN_FAILURE, a1, sys_free p w7)
      else (CONN_SUCCESS, a1, w7))"

subsection \<open>The registry and the entry point\<close>

definition vsock_be :: be_funcs where
  "vsock_be =
     \<lparr>shortName = VSOCKET_BE_NAME, name = ''vSocket Communication Backend v0.1'',
      init_sock = vsock_init, release_sock = vsock_release, get_reply = vsock_get_reply\<rparr>"

definition dummy_be :: be_funcs where
  "dummy_be =
     \<lparr>shortName = DUMMY_BE_NAME, name = ''Dummy Communication Backend'',
      init_sock = dummy_init, release_sock = dummy_release, get_reply = dummy_get_reply\<rparr>"

text \<open>The table; its all-zero last entry is the end of the list.\<close>

definition backends :: "be_funcs list" where
  "backends = [vsock_be, dummy_be]"

text \<open>
  The scan of \<open>get_backend\<close>: it stops at the terminating entry (\<open>be->shortName\<close> is NULL)
  and at an entry with an empty short name.
\<close>

fun get_backend_from :: "be_funcs list \<Rightarrow> string \<Rightarrow> be_funcs option" where
  "get_backend_from [] sn = None"
| "get_backend_from (be # rest) sn =
     (if cstr (shortName be) = [] then None
      else if strcmp sn (shortName be) = 0 then Some be
      else get_backend_from rest sn)"

definition get_backend :: "string \<Rightarrow> be_funcs option" where
  "get_backend sn = get_backend_from backends sn"

definition host_request ::
  "env \<Rightarrow> be_funcs \<Rightarrow> be_request \<Rightarrow> be_answer \<Rightarrow> int \<Rightarrow> int \<Rightarrow> world \<Rightarrow> int \<times> be_answer \<times> world" where
  "host_request env be req ans cid port w =
     (let (ret, id1, w1) = init_sock be env (stack_id env) cid port w in
      if ret \<noteq> 0 then (ret, ans, w1)
      else
        let (ret, ans1, w2) = get_reply be env id1 req ans w1;
            w3 = release_sock be env id1 w2
        in (ret, ans1, w3))"

text \<open>The request that \<open>Vmci_GetReply\<close> builds (\<open>req.mlen\<close> and \<open>req.msg\<close>).\<close>

definition Vmci_request :: "string \<Rightarrow> be_request" where
  "Vmci_request json_request =
     \<lparr>mlen = word_of_nat (strnlen json_request MAXBUF + 1), msg = json_request\<rparr>"

definition Vmci_GetReply ::
  "env \<Rightarrow> int \<Rightarrow> string \<Rightarrow> string \<Rightarrow> be_answer \<Rightarrow> world \<Rightarrow> int \<times> be_answer \<times> world" where
  "Vmci_GetReply env port json_request be_name ans w =
     (case get_backend be_name of
        None \<Rightarrow> (CONN_FAILURE, ans, w\<lparr>errno := ENXIO\<rparr>)
      | Some be \<Rightarrow> host_request env be (Vmci_request json_request) ans ESX_VMCI_CID port w)"

subsection \<open>Vocabulary of the statements\<close>

text \<open>The calls made between two worlds.\<close>

definition new_events :: "world \<Rightarrow> world \<Rightarrow> event list" where
  "new_events w w' = drop (length (trace w)) (trace w')"

text \<open>
  The three writes of a request, as \<open>vsock_get_reply\<close> issues them from world \<open>w\<close>: the
  magic, the length field, and \<open>mlen\<close> bytes of the message.
\<close>

definition request_writes :: "env \<Rightarrow> be_sock_id \<Rightarrow> be_request \<Rightarrow> world \<Rightarrow> event list" where
  "request_writes env s r w =
     [SendU32 (sock_id s) (MAGIC env) (fst (send_res env (nsend w))),
      SendU32 (sock_id s) (mlen r) (fst (send_res env (nsend w + 1))),
      SendBuf (sock_id s) (take (unat (mlen r)) (msg r @ [NUL])) (unat (mlen r))
        (fst (send_res env (nsend w + 2)))]"

fun is_send :: "event \<Rightarrow> bool" where
  "is_send (SendU32 fd v r) = True"
| "is_send (SendBuf fd m n r) = True"
| "is_send e = False"

text \<open>The world once the three writes have gone through.\<close>

definition after_send :: "env \<Rightarrow> be_sock_id \<Rightarrow> be_request \<Rightarrow> world \<Rightarrow> world" where
  "after_send env s r w = w\<lparr>nsend := nsend w + 3, trace := trace w @ request_writes env s r w\<rparr>"

text \<open>
  The content of the reply buffer after the third \<open>recv\<close>: the bytes received, then the
  zeroes \<open>calloc\<close> left.
\<close>

definition reply_bytes :: "env \<Rightarrow> world \<Rightarrow> string" where
  "reply_bytes env w =
     (let n = unat (recv_u32 env (nrecv w + 1));
          got = take (min (nat (fst (recv_res env (nrecv w + 2)))) n) (recv_bytes env (nrecv w + 2))
      in take n (got @ drop (length got) (replicate n NUL)))"

text \<open>
  The descriptors closed, and the descriptors \<open>socket\<close> returned (a result of -1 is no
  descriptor), in the order of the calls.
\<close>

fun closed_fds :: "event list \<Rightarrow> int list" where
  "closed_fds [] = []"
| "closed_fds (Close fd # es) = fd # closed_fds es"
| "closed_fds (e # es) = closed_fds es"

fun opened_fds :: "event list \<Rightarrow> int list" where
  "opened_fds [] = []"
| "opened_fds (Socket fam fd # es) = (if fd = - 1 then opened_fds es else fd # opened_fds es)"
| "opened_fds (e # es) = opened_fds es"

subsection \<open>A sample run\<close>

text \<open>
  Concrete values on which the theorems below are instantiated: a process that has made no
  call yet, an answer structure whose \<open>buf\<close> is \<open>NULL\<close>, and an environment in which every
  call succeeds and the peer answers the 3-byte request \<open>{}\<close> with a well-formed frame
  carrying the five bytes of \<open>done\<close>.
\<close>

definition world0 :: world where
  "world0 =
     \<lparr>trace = [], errno = 0, af_static = - 1, heap = (\<lambda>p. None), nsend = 0, nrecv = 0,
      nalloc = 0\<rparr>"

definition ans0 :: be_answer where
  "ans0 = \<lparr>buf = 0\<rparr>"

definition env_ok :: env where
  "env_ok =
     \<lparr>MAGIC = 0xbadbeef,
      stack_id = \<lparr>sock_id = 0, addr = \<lparr>svm_family = 0, svm_cid = 0, svm_port = 0\<rparr>\<rparr>,
      getaf_val = 40,
      socket_res = (3, 0),
      connect_res = (0, 0),
      close_res = (0, 0),
      send_res = (\<lambda>k. if k = 2 then (3, 0) else (4, 0)),
      recv_res = (\<lambda>k. if k = 2 then (5, 0) else (4, 0)),
      recv_u32 = (\<lambda>k. if k = 0 then 0xbadbeef else 5),
      recv_bytes = (\<lambda>k. ''done'' @ [NUL]),
      alloc_res = (\<lambda>k. 4096 + k)\<rparr>"

text \<open>
  The socket the sample run gets, its request, and the world once \<open>vsock_init\<close> has
  connected.
\<close>

definition sock0 :: be_sock_id where
  "sock0 = \<lparr>sock_id = 3, addr = \<lparr>svm_family = 40, svm_cid = 2, svm_port = 1234\<rparr>\<rparr>"

definition req0 :: be_request where
  "req0 = \<lparr>mlen = 3, msg = ''{}''\<rparr>"

definition world1 :: world where
  "world1 =
     \<lparr>trace = [GetAFValue 40, Socket 40 3,
               Connect 3 \<lparr>svm_family = 40, svm_cid = 2, svm_port = 1234\<rparr> 0],
      errno = 0, af_static = 40, heap = (\<lambda>p. None), nsend = 0, nrecv = 0, nalloc = 0\<rparr>"

text \<open>A peer that declares a reply of \<open>2^20 + 1\<close> bytes and delivers all of it.\<close>

definition env_big :: env where
  "env_big =
     env_ok\<lparr>recv_res := (\<lambda>k. if k = 2 then (1048577, 0) else (4, 0)),
            recv_u32 := (\<lambda>k. if k = 0 then 0xbadbeef else 1048577),
            recv_bytes := (\<lambda>k. replicate 1048577 (CHR ''x''))\<rparr>"

text \<open>
  A request of \<open>2^20 + 1\<close> bytes, and an environment in which \<open>send\<close> takes all of what
  it is offered of it.
\<close>

definition big_request :: string where
  "big_request = replicate 1048577 (CHR ''a'')"

definition env_big_send :: env where
  "env_big_send = env_ok\<lparr>send_res := (\<lambda>k. if k = 2 then (1048577, 0) else (4, 0))\<rparr>"

section \<open>Properties\<close>

subsection \<open>Strings and the registry\<close>

lemma strnlen_min: "strnlen s n = min (length (cstr s)) n"
  by (induction s n rule: strnlen.induct) (auto simp: cstr_def)

lemma of_char_zero_iff: "(of_char c = (0::int)) = (c = NUL)"
  using of_char_eq_iff [of c "CHR 0x00", where ?'a = int] by (simp add: NUL_def)

lemma strcmp_zero_iff: "strcmp s t = 0 \<longleftrightarrow> cstr s = cstr t"
  by (induction s t rule: strcmp.induct) (auto simp: cstr_def of_char_zero_iff)

lemma cstr_id: "NUL \<notin> set s \<Longrightarrow> cstr s = s"
  by (induction s) (auto simp: cstr_def)

lemma cstr_vsocket: "cstr VSOCKET_BE_NAME = ''vsocket''"
  by (simp add: cstr_def VSOCKET_BE_NAME_def NUL_def)

lemma cstr_dummy: "cstr DUMMY_BE_NAME = ''dummy''"
  by (simp add: cstr_def DUMMY_BE_NAME_def NUL_def)

lemma get_backend_eq:
  "get_backend sn =
     (if cstr sn = ''vsocket'' then Some vsock_be
      else if cstr sn = ''dummy'' then Some dummy_be else None)"
  by (simp add: get_backend_def backends_def strcmp_zero_iff vsock_be_def dummy_be_def
      cstr_vsocket cstr_dummy)

lemma Vmci_request_mlen:
  "unat (mlen (Vmci_request json)) = min (length (cstr json)) MAXBUF + 1"
proof -
  let ?n = "strnlen json MAXBUF + 1"
  have small: "?n < 2 ^ 32"
    by (simp add: strnlen_min MAXBUF_def min_def)
  have "unat (word_of_nat ?n :: 32 word) = ?n mod 2 ^ 32"
    by (simp add: unat_of_nat del: of_nat_add of_nat_Suc)
  with small have "unat (word_of_nat ?n :: 32 word) = ?n"
    by (simp only: mod_less)
  then show ?thesis
    by (simp only: Vmci_request_def be_request.simps strnlen_min)
qed

lemmas sys_defs = emit_def fail_errno_def printf_def fprintf_stderr_def sys_strdup_def
  sys_calloc_def sys_free_def sys_close_def sys_socket_def sys_connect_def sys_send_u32_def
  sys_send_buf_def sys_recv_u32_def sys_recv_buf_def store_bytes_def VMCISock_GetAFValue_def

subsection \<open>The length field of a request\<close>

text \<open>
  C10. For every request string, \<open>Vmci_GetReply\<close> sets \<open>req.mlen\<close> to the length of the
  string cut off at \<open>MAXBUF\<close>, plus one; so \<open>mlen\<close> is at most \<open>2^20 + 1\<close> however long the
  string is. The request built this way is the one handed to \<open>host_request\<close>, for both
  registered backends.
\<close>

theorem C10_mlen_clamped:
  "unat (mlen (Vmci_request json)) = min (length (cstr json)) MAXBUF + 1
   \<and> unat (mlen (Vmci_request json)) \<le> 2 ^ 20 + 1
   \<and> msg (Vmci_request json) = json
   \<and> Vmci_GetReply env port json ''vsocket'' ans w =
       host_request env vsock_be (Vmci_request json) ans ESX_VMCI_CID port w
   \<and> Vmci_GetReply env port json ''dummy'' ans w =
       host_request env dummy_be (Vmci_request json) ans ESX_VMCI_CID port w"
proof -
  have m: "unat (mlen (Vmci_request json)) = min (length (cstr json)) MAXBUF + 1"
    by (rule Vmci_request_mlen)
  have b: "unat (mlen (Vmci_request json)) \<le> 2 ^ 20 + 1"
    unfolding m by (simp add: MAXBUF_def)
  have s: "msg (Vmci_request json) = json"
    by (simp add: Vmci_request_def)
  have v: "Vmci_GetReply env port json ''vsocket'' ans w =
       host_request env vsock_be (Vmci_request json) ans ESX_VMCI_CID port w"
    by (simp add: Vmci_GetReply_def get_backend_eq cstr_def NUL_def)
  have d: "Vmci_GetReply env port json ''dummy'' ans w =
       host_request env dummy_be (Vmci_request json) ans ESX_VMCI_CID port w"
    by (simp add: Vmci_GetReply_def get_backend_eq cstr_def NUL_def)
  from m b s v d show ?thesis by blast
qed

subsection \<open>Unknown backends\<close>

text \<open>
  C5. When the backend name (the C string at \<open>be_name\<close>) is not the short name of an entry
  of the table, compared byte for byte, \<open>get_backend\<close> finds nothing and \<open>Vmci_GetReply\<close>
  returns \<open>CONN_FAILURE\<close> with \<open>errno = ENXIO\<close>; nothing else of the world changes, so no
  call of a backend is made. \<open>get_backend\<close> is a function of the name alone: it neither
  reads nor changes the world.
\<close>

theorem C5_unknown_backend:
  assumes "cstr be_name \<notin> set (map shortName backends)"
  shows "get_backend be_name = None
    \<and> Vmci_GetReply env port json be_name ans w = (CONN_FAILURE, ans, w\<lparr>errno := ENXIO\<rparr>)
    \<and> trace (snd (snd (Vmci_GetReply env port json be_name ans w))) = trace w
    \<and> CONN_FAILURE \<noteq> CONN_SUCCESS"
proof -
  from assms have "cstr be_name \<noteq> ''vsocket''" and "cstr be_name \<noteq> ''dummy''"
    by (simp_all add: backends_def vsock_be_def dummy_be_def VSOCKET_BE_NAME_def
        DUMMY_BE_NAME_def)
  then have n: "get_backend be_name = None"
    by (simp add: get_backend_eq)
  then show ?thesis
    by (simp add: Vmci_GetReply_def CONN_FAILURE_def CONN_SUCCESS_def)
qed

theorem C5_unknown_backend_witness:
  "cstr ''Dummy'' \<notin> set (map shortName backends)
   \<and> get_backend ''Dummy'' = None
   \<and> Vmci_GetReply env_ok 1234 ''{}'' ''Dummy'' ans0 world0 =
       (CONN_FAILURE, ans0, world0\<lparr>errno := ENXIO\<rparr>)"
proof -
  have h: "cstr ''Dummy'' \<notin> set (map shortName backends)"
    by (simp add: cstr_def NUL_def backends_def vsock_be_def dummy_be_def VSOCKET_BE_NAME_def
        DUMMY_BE_NAME_def)
  from h C5_unknown_backend [OF h, of env_ok 1234 "''{}''" ans0 world0] show ?thesis
    by blast
qed

subsection \<open>The dummy backend\<close>

lemma dummy_exchange:
  "Vmci_GetReply env port json ''dummy'' ans w =
     (let p = alloc_res env (nalloc w);
          evs = [Stdout ''dummy_init: connected.\<newline>'',
                 Stdout (''dummy_get_reply: got request '' @ cstr json @ ''.\<newline>''),
                 Stdout ''dummy_get_reply: replying empty (for now).\<newline>'',
                 Strdup ''none'' p,
                 Stdout ''dummy_release: released.\<newline>'']
      in (CONN_SUCCESS, ans\<lparr>buf := p\<rparr>,
          if p = 0
          then w\<lparr>trace := trace w @ evs, nalloc := Suc (nalloc w), errno := ENOMEM\<rparr>
          else w\<lparr>trace := trace w @ evs, nalloc := Suc (nalloc w),
                 heap := (heap w)(p \<mapsto> ''none'' @ [NUL])\<rparr>))"
  by (simp add: Vmci_GetReply_def get_backend_eq cstr_def NUL_def host_request_def dummy_be_def
      dummy_init_def dummy_get_reply_def dummy_release_def sys_defs Let_def CONN_SUCCESS_def
      Vmci_request_def)

text \<open>
  C9. For every request and every port, \<open>Vmci_GetReply\<close> over the dummy backend returns
  \<open>CONN_SUCCESS\<close>, and the answer is the pointer \<open>strdup("none")\<close> returned: neither
  depends on the request or the port. When \<open>strdup\<close> could allocate, the buffer holds the
  string \<open>none\<close>. The calls made are four \<open>printf\<close>s and the \<open>strdup\<close>: \<open>dummy_init\<close> always
  returns \<open>CONN_SUCCESS\<close> and only prints, and \<open>dummy_release\<close> only prints.
\<close>

theorem C9_dummy_exchange:
  "fst (Vmci_GetReply env port json ''dummy'' ans w) = CONN_SUCCESS
   \<and> fst (snd (Vmci_GetReply env port json ''dummy'' ans w)) = ans\<lparr>buf := alloc_res env (nalloc w)\<rparr>
   \<and> fst (snd (Vmci_GetReply env port json ''dummy'' ans w)) =
       fst (snd (Vmci_GetReply env port' json' ''dummy'' ans w))
   \<and> (alloc_res env (nalloc w) \<noteq> 0 \<longrightarrow>
       map_option cstr
         (heap (snd (snd (Vmci_GetReply env port json ''dummy'' ans w))) (alloc_res env (nalloc w))) =
       Some ''none'')
   \<and> trace (snd (snd (Vmci_GetReply env port json ''dummy'' ans w))) =
       trace w @
       [Stdout ''dummy_init: connected.\<newline>'',
        Stdout (''dummy_get_reply: got request '' @ cstr json @ ''.\<newline>''),
        Stdout ''dummy_get_reply: replying empty (for now).\<newline>'',
        Strdup ''none'' (alloc_res env (nalloc w)),
        Stdout ''dummy_release: released.\<newline>'']
   \<and> dummy_init env id0 cid port w =
       (CONN_SUCCESS, id0, w\<lparr>trace := trace w @ [Stdout ''dummy_init: connected.\<newline>'']\<rparr>)
   \<and> dummy_release env id0 w = w\<lparr>trace := trace w @ [Stdout ''dummy_release: released.\<newline>'']\<rparr>"
  by (simp add: dummy_exchange Let_def dummy_init_def dummy_release_def sys_defs cstr_def NUL_def)

theorem C9_dummy_exchange_witness:
  "alloc_res env_ok (nalloc world0) \<noteq> 0
   \<and> fst (Vmci_GetReply env_ok 1234 ''{\"cmd\":\"status\"}'' ''dummy'' ans0 world0) = CONN_SUCCESS
   \<and> map_option cstr
        (heap (snd (snd (Vmci_GetReply env_ok 1234 ''{\"cmd\":\"status\"}'' ''dummy'' ans0 world0))) 4096) =
      Some ''none''"
  using C9_dummy_exchange [of env_ok 1234 "''{\"cmd\":\"status\"}''" ans0 world0]
  by (simp add: env_ok_def world0_def)

subsection \<open>Connecting\<close>

lemma vsock_init_socket_fails:
  assumes "fst (vsock_get_family env w) \<noteq> - 1" and "fst (socket_res env) = - 1"
  shows "vsock_init env id0 cid port w =
     (CONN_FAILURE, id0,
      (snd (vsock_get_family env w))
        \<lparr>trace := trace (snd (vsock_get_family env w)) @ [Socket (fst (vsock_get_family env w)) (- 1)],
         errno := snd (socket_res env)\<rparr>)"
  using assms
  by (simp add: vsock_init_def sys_defs Let_def case_prod_beta)

lemma vsock_init_connect_fails:
  assumes "fst (vsock_get_family env w) \<noteq> - 1" and "fst (socket_res env) \<noteq> - 1"
    and "fst (connect_res env) \<noteq> 0"
  shows "vsock_init env id0 cid port w =
     (let fam = fst (vsock_get_family env w); w1 = snd (vsock_get_family env w);
          sock = fst (socket_res env);
          sa = \<lparr>svm_family = fam, svm_cid = cid, svm_port = port\<rparr>
      in (CONN_FAILURE, id0\<lparr>sock_id := sock, addr := sa\<rparr>,
          w1\<lparr>trace := trace w1 @ [Socket fam sock, Connect sock sa (fst (connect_res env)), Close sock],
             errno := (if fst (connect_res env) = - 1 then snd (connect_res env) else errno w1)\<rparr>))"
  using assms
  by (simp add: vsock_init_def vsock_release_def sys_defs Let_def case_prod_beta)

lemma vsock_get_family_errno: "errno (snd (vsock_get_family env w)) = errno w"
  by (simp add: vsock_get_family_def sys_defs)

lemma vsock_init_succeeds:
  assumes "fst (vsock_get_family env w) \<noteq> - 1" and "fst (socket_res env) \<noteq> - 1"
    and "fst (connect_res env) = 0"
  shows "vsock_init env id0 cid port w =
     (let fam = fst (vsock_get_family env w); w1 = snd (vsock_get_family env w);
          sock = fst (socket_res env);
          sa = \<lparr>svm_family = fam, svm_cid = cid, svm_port = port\<rparr>
      in (CONN_SUCCESS, id0\<lparr>sock_id := sock, addr := sa\<rparr>,
          w1\<lparr>trace := trace w1 @ [Socket fam sock, Connect sock sa 0]\<rparr>))"
  using assms
  by (simp add: vsock_init_def sys_defs Let_def case_prod_beta)

lemma vsock_init_no_family:
  assumes "fst (vsock_get_family env w) = - 1"
  shows "vsock_init env id0 cid port w =
     (CONN_FAILURE, id0, (snd (vsock_get_family env w))\<lparr>errno := EAFNOSUPPORT\<rparr>)"
  using assms
  by (simp add: vsock_init_def Let_def case_prod_beta)

lemma vsock_init_sample:
  assumes "getaf_val env = 40" and "socket_res env = (3, 0)" and "connect_res env = (0, 0)"
    and "stack_id env = stack_id env_ok"
  shows "vsock_init env (stack_id env) 2 1234 world0 = (CONN_SUCCESS, sock0, world1)"
  by (simp add: vsock_init_def vsock_get_family_def sys_defs Let_def assms env_ok_def sock0_def
      world1_def world0_def)

lemma host_request_init_fails:
  assumes "fst (init_sock be env (stack_id env) cid port w) \<noteq> 0"
  shows "host_request env be req ans cid port w =
     (fst (init_sock be env (stack_id env) cid port w), ans,
      snd (snd (init_sock be env (stack_id env) cid port w)))"
  using assms by (simp add: host_request_def case_prod_beta)

lemma host_request_init_ok:
  assumes "fst (init_sock be env (stack_id env) cid port w) = 0"
  shows "host_request env be req ans cid port w =
     (let id1 = fst (snd (init_sock be env (stack_id env) cid port w));
          w1 = snd (snd (init_sock be env (stack_id env) cid port w));
          g = get_reply be env id1 req ans w1
      in (fst g, fst (snd g), release_sock be env id1 (snd (snd g))))"
  using assms by (simp add: host_request_def case_prod_beta Let_def)

text \<open>
  C8. When the address family is available and \<open>socket\<close> fails, \<open>vsock_init\<close> returns
  \<open>CONN_FAILURE\<close> and \<open>errno\<close> is the one \<open>socket\<close> set. When \<open>connect\<close> fails,
  \<open>vsock_init\<close> returns \<open>CONN_FAILURE\<close>, closes the socket as its last call, and \<open>errno\<close> is
  the one \<open>connect\<close> left, whatever \<open>close\<close> did to it. In both cases \<open>host_request\<close>
  returns \<open>CONN_FAILURE\<close> with the same \<open>errno\<close>.
\<close>

theorem C8_init_failure_errno:
  assumes "fst (vsock_get_family env w) \<noteq> - 1"
  shows "(fst (socket_res env) = - 1 \<longrightarrow>
            fst (vsock_init env id0 cid port w) = CONN_FAILURE
          \<and> errno (snd (snd (vsock_init env id0 cid port w))) = snd (socket_res env)
          \<and> fst (host_request env vsock_be req ans cid port w) = CONN_FAILURE
          \<and> errno (snd (snd (host_request env vsock_be req ans cid port w))) = snd (socket_res env))
       \<and> (fst (socket_res env) \<noteq> - 1 \<and> fst (connect_res env) \<noteq> 0 \<longrightarrow>
            fst (vsock_init env id0 cid port w) = CONN_FAILURE
          \<and> errno (snd (snd (vsock_init env id0 cid port w))) =
              (if fst (connect_res env) = - 1 then snd (connect_res env) else errno w)
          \<and> last (trace (snd (snd (vsock_init env id0 cid port w)))) = Close (fst (socket_res env))
          \<and> fst (host_request env vsock_be req ans cid port w) = CONN_FAILURE
          \<and> errno (snd (snd (host_request env vsock_be req ans cid port w))) =
              (if fst (connect_res env) = - 1 then snd (connect_res env) else errno w))"
proof -
  have be: "init_sock vsock_be = vsock_init"
    by (simp add: vsock_be_def)
  have a: "fst (vsock_init env i cid port w) = CONN_FAILURE
          \<and> errno (snd (snd (vsock_init env i cid port w))) = snd (socket_res env)"
    if "fst (socket_res env) = - 1" for i
    by (simp add: vsock_init_socket_fails [OF assms that])
  have b: "fst (vsock_init env i cid port w) = CONN_FAILURE
          \<and> errno (snd (snd (vsock_init env i cid port w))) =
              (if fst (connect_res env) = - 1 then snd (connect_res env) else errno w)
          \<and> last (trace (snd (snd (vsock_init env i cid port w)))) = Close (fst (socket_res env))"
    if "fst (socket_res env) \<noteq> - 1" "fst (connect_res env) \<noteq> 0" for i
    by (simp add: vsock_init_connect_fails [OF assms that] Let_def vsock_get_family_errno)
  have h: "fst (host_request env vsock_be req ans cid port w) = CONN_FAILURE
          \<and> errno (snd (snd (host_request env vsock_be req ans cid port w))) =
              errno (snd (snd (vsock_init env (stack_id env) cid port w)))"
    if "fst (vsock_init env (stack_id env) cid port w) = CONN_FAILURE"
  proof -
    from that have "fst (init_sock vsock_be env (stack_id env) cid port w) \<noteq> 0"
      by (simp add: be CONN_FAILURE_def)
    from host_request_init_fails [OF this, of req ans] that show ?thesis
      by (simp add: be)
  qed
  from a [of id0] a [of "stack_id env"] b [of id0] b [of "stack_id env"] h show ?thesis
    by simp
qed

theorem C8_init_failure_errno_witness:
  "fst (vsock_get_family (env_ok\<lparr>socket_res := (- 1, 24)\<rparr>) world0) \<noteq> - 1
   \<and> fst (socket_res (env_ok\<lparr>socket_res := (- 1, 24)\<rparr>)) = - 1
   \<and> fst (vsock_init (env_ok\<lparr>socket_res := (- 1, 24)\<rparr>) sock0 2 1234 world0) = CONN_FAILURE
   \<and> errno (snd (snd (vsock_init (env_ok\<lparr>socket_res := (- 1, 24)\<rparr>) sock0 2 1234 world0))) = 24
   \<and> fst (vsock_get_family (env_ok\<lparr>connect_res := (- 1, 111), close_res := (- 1, 4)\<rparr>) world0) \<noteq> - 1
   \<and> fst (socket_res (env_ok\<lparr>connect_res := (- 1, 111), close_res := (- 1, 4)\<rparr>)) \<noteq> - 1
   \<and> fst (connect_res (env_ok\<lparr>connect_res := (- 1, 111), close_res := (- 1, 4)\<rparr>)) \<noteq> 0
   \<and> fst (vsock_init (env_ok\<lparr>connect_res := (- 1, 111), close_res := (- 1, 4)\<rparr>) sock0 2 1234 world0)
       = CONN_FAILURE
   \<and> errno (snd (snd (vsock_init (env_ok\<lparr>connect_res := (- 1, 111), close_res := (- 1, 4)\<rparr>)
        sock0 2 1234 world0))) = 111
   \<and> last (trace (snd (snd (vsock_init (env_ok\<lparr>connect_res := (- 1, 111), close_res := (- 1, 4)\<rparr>)
        sock0 2 1234 world0)))) = Close 3"
proof -
  have f1: "fst (vsock_get_family (env_ok\<lparr>socket_res := (- 1, 24)\<rparr>) world0) \<noteq> - 1"
    by (simp add: vsock_get_family_def VMCISock_GetAFValue_def env_ok_def world0_def)
  have f2: "fst (vsock_get_family (env_ok\<lparr>connect_res := (- 1, 111), close_res := (- 1, 4)\<rparr>) world0) \<noteq> - 1"
    by (simp add: vsock_get_family_def VMCISock_GetAFValue_def env_ok_def world0_def)
  show ?thesis
    using f1 f2 C8_init_failure_errno [OF f1, of sock0 2 1234]
      C8_init_failure_errno [OF f2, of sock0 2 1234]
    by (simp add: env_ok_def)
qed

subsection \<open>The paths of \<open>vsock_get_reply\<close>\<close>

lemma get_reply_send1_fails:
  assumes "fst (send_res env (nsend w)) \<noteq> 4"
  shows "vsock_get_reply env s r a w =
     (CONN_FAILURE, a,
      fail_errno (send_res env (nsend w))
        (w\<lparr>nsend := nsend w + 1, trace := trace w @ take 1 (request_writes env s r w)\<rparr>))"
  using assms
  by (simp add: vsock_get_reply_def sys_send_u32_def emit_def fail_errno_def Let_def
      request_writes_def)

lemma get_reply_send2_fails:
  assumes "fst (send_res env (nsend w)) = 4" and "fst (send_res env (nsend w + 1)) \<noteq> 4"
  shows "vsock_get_reply env s r a w =
     (CONN_FAILURE, a,
      fail_errno (send_res env (nsend w + 1))
        (w\<lparr>nsend := nsend w + 2, trace := trace w @ take 2 (request_writes env s r w)\<rparr>))"
  using assms
  by (simp add: vsock_get_reply_def sys_send_u32_def emit_def fail_errno_def Let_def
      request_writes_def)

lemma get_reply_send3_fails:
  assumes "fst (send_res env (nsend w)) = 4" and "fst (send_res env (nsend w + 1)) = 4"
    and "fst (send_res env (nsend w + 2)) = - 1
         \<or> word_of_int (fst (send_res env (nsend w + 2))) \<noteq> mlen r"
  shows "vsock_get_reply env s r a w =
     (CONN_FAILURE, a,
      fail_errno (send_res env (nsend w + 2))
        (w\<lparr>nsend := nsend w + 3, trace := trace w @ request_writes env s r w\<rparr>))"
  using assms
  by (auto simp add: vsock_get_reply_def sys_send_u32_def sys_send_buf_def emit_def fail_errno_def
      Let_def request_writes_def numeral_3_eq_3 numeral_2_eq_2)
lemmas get_reply_defs = vsock_get_reply_def sys_send_u32_def sys_send_buf_def sys_recv_u32_def
  sys_recv_buf_def sys_calloc_def sys_free_def store_bytes_def fprintf_stderr_def emit_def
  fail_errno_def Let_def request_writes_def after_send_def numeral_3_eq_3 numeral_2_eq_2

lemma get_reply_recv_magic_fails:
  assumes "fst (send_res env (nsend w)) = 4" and "fst (send_res env (nsend w + 1)) = 4"
    and "fst (send_res env (nsend w + 2)) \<noteq> - 1"
    and "word_of_int (fst (send_res env (nsend w + 2))) = mlen r"
    and "fst (recv_res env (nrecv w)) \<noteq> 4"
  shows "vsock_get_reply env s r a w =
     (CONN_FAILURE, a,
      fail_errno (recv_res env (nrecv w))
        ((after_send env s r w)
           \<lparr>nrecv := nrecv w + 1,
            trace := trace (after_send env s r w) @
              [RecvU32 (sock_id s) (fst (recv_res env (nrecv w)))]\<rparr>))"
  using assms by (simp add: get_reply_defs)

lemma get_reply_wrong_magic:
  assumes "fst (send_res env (nsend w)) = 4" and "fst (send_res env (nsend w + 1)) = 4"
    and "fst (send_res env (nsend w + 2)) \<noteq> - 1"
    and "word_of_int (fst (send_res env (nsend w + 2))) = mlen r"
    and "fst (recv_res env (nrecv w)) = 4"
    and "recv_u32 env (nrecv w) \<noteq> MAGIC env"
  shows "vsock_get_reply env s r a w =
     (CONN_FAILURE, a,
      (after_send env s r w)
        \<lparr>nrecv := nrecv w + 1,
         trace := trace (after_send env s r w) @
           [RecvU32 (sock_id s) 4, Stderr ''Wrong magic: got 0x%x expected 0x%x\<newline>''],
         errno := EBADMSG\<rparr>)"
  using assms by (simp add: get_reply_defs)

lemma get_reply_recv_len_fails:
  assumes "fst (send_res env (nsend w)) = 4" and "fst (send_res env (nsend w + 1)) = 4"
    and "fst (send_res env (nsend w + 2)) \<noteq> - 1"
    and "word_of_int (fst (send_res env (nsend w + 2))) = mlen r"
    and "fst (recv_res env (nrecv w)) = 4"
    and "recv_u32 env (nrecv w) = MAGIC env"
    and "fst (recv_res env (nrecv w + 1)) \<noteq> 4"
  shows "vsock_get_reply env s r a w =
     (CONN_FAILURE, a,
      fail_errno (recv_res env (nrecv w + 1))
        ((after_send env s r w)
           \<lparr>nrecv := nrecv w + 2,
            trace := trace (after_send env s r w) @
              [RecvU32 (sock_id s) 4, RecvU32 (sock_id s) (fst (recv_res env (nrecv w + 1))),
               Stderr ''Failed to receive len: ret %d (%s)\<newline>'']\<rparr>))"
  using assms by (simp add: get_reply_defs)

lemma get_reply_calloc_fails:
  assumes "fst (send_res env (nsend w)) = 4" and "fst (send_res env (nsend w + 1)) = 4"
    and "fst (send_res env (nsend w + 2)) \<noteq> - 1"
    and "word_of_int (fst (send_res env (nsend w + 2))) = mlen r"
    and "fst (recv_res env (nrecv w)) = 4"
    and "recv_u32 env (nrecv w) = MAGIC env"
    and "fst (recv_res env (nrecv w + 1)) = 4"
    and "alloc_res env (nalloc w) = 0"
  shows "vsock_get_reply env s r a w =
     (CONN_FAILURE, a\<lparr>buf := 0\<rparr>,
      (after_send env s r w)
        \<lparr>nrecv := nrecv w + 2, nalloc := nalloc w + 1,
         trace := trace (after_send env s r w) @
           [RecvU32 (sock_id s) 4, RecvU32 (sock_id s) 4,
            Calloc 1 (unat (recv_u32 env (nrecv w + 1))) 0],
         errno := ENOMEM\<rparr>)"
  using assms by (simp add: get_reply_defs)
lemma get_reply_recv_payload_fails:
  assumes "fst (send_res env (nsend w)) = 4" and "fst (send_res env (nsend w + 1)) = 4"
    and "fst (send_res env (nsend w + 2)) \<noteq> - 1"
    and "word_of_int (fst (send_res env (nsend w + 2))) = mlen r"
    and "fst (recv_res env (nrecv w)) = 4"
    and "recv_u32 env (nrecv w) = MAGIC env"
    and "fst (recv_res env (nrecv w + 1)) = 4"
    and "alloc_res env (nalloc w) \<noteq> 0"
    and "fst (recv_res env (nrecv w + 2)) = - 1
         \<or> word_of_int (fst (recv_res env (nrecv w + 2))) \<noteq> recv_u32 env (nrecv w + 1)"
  shows "vsock_get_reply env s r a w =
     (CONN_FAILURE, a\<lparr>buf := alloc_res env (nalloc w)\<rparr>,
      fail_errno (recv_res env (nrecv w + 2))
      ((after_send env s r w)
        \<lparr>nrecv := nrecv w + 3, nalloc := nalloc w + 1,
         heap := (heap w)(alloc_res env (nalloc w) := None),
         trace := trace (after_send env s r w) @
           [RecvU32 (sock_id s) 4, RecvU32 (sock_id s) 4,
            Calloc 1 (unat (recv_u32 env (nrecv w + 1))) (alloc_res env (nalloc w)),
            RecvBuf (sock_id s) (alloc_res env (nalloc w)) (unat (recv_u32 env (nrecv w + 1)))
              (fst (recv_res env (nrecv w + 2))),
            Free (alloc_res env (nalloc w))]\<rparr>))"
  using assms by (auto simp add: get_reply_defs)

lemma get_reply_success:
  assumes "fst (send_res env (nsend w)) = 4" and "fst (send_res env (nsend w + 1)) = 4"
    and "fst (send_res env (nsend w + 2)) \<noteq> - 1"
    and "word_of_int (fst (send_res env (nsend w + 2))) = mlen r"
    and "fst (recv_res env (nrecv w)) = 4"
    and "recv_u32 env (nrecv w) = MAGIC env"
    and "fst (recv_res env (nrecv w + 1)) = 4"
    and "alloc_res env (nalloc w) \<noteq> 0"
    and "fst (recv_res env (nrecv w + 2)) \<noteq> - 1"
    and "word_of_int (fst (recv_res env (nrecv w + 2))) = recv_u32 env (nrecv w + 1)"
  shows "vsock_get_reply env s r a w =
     (CONN_SUCCESS, a\<lparr>buf := alloc_res env (nalloc w)\<rparr>,
      (after_send env s r w)
        \<lparr>nrecv := nrecv w + 3, nalloc := nalloc w + 1,
         heap := (heap w)(alloc_res env (nalloc w) \<mapsto> reply_bytes env w),
         trace := trace (after_send env s r w) @
           [RecvU32 (sock_id s) 4, RecvU32 (sock_id s) 4,
            Calloc 1 (unat (recv_u32 env (nrecv w + 1))) (alloc_res env (nalloc w)),
            RecvBuf (sock_id s) (alloc_res env (nalloc w)) (unat (recv_u32 env (nrecv w + 1)))
              (fst (recv_res env (nrecv w + 2)))]\<rparr>)"
  using assms by (simp add: get_reply_defs reply_bytes_def)

lemma get_reply_sends_only:
  assumes "fst (send_res env (nsend w)) = 4" and "fst (send_res env (nsend w + 1)) = 4"
    and "fst (send_res env (nsend w + 2)) \<noteq> - 1"
    and "word_of_int (fst (send_res env (nsend w + 2))) = mlen r"
  shows "\<exists>rest. trace (snd (snd (vsock_get_reply env s r a w))) =
           trace w @ request_writes env s r w @ rest \<and> filter is_send rest = []"
  using assms by (auto simp add: get_reply_defs)

lemma short_or_error:
  assumes "ret = - 1 \<or> (0 \<le> ret \<and> ret < int (unat (n :: 32 word)))"
  shows "ret = - 1 \<or> word_of_int ret \<noteq> n"
proof (cases "ret = - 1")
  case True
  then show ?thesis by simp
next
  case False
  with assms have r: "0 \<le> ret" "ret < int (unat n)" by auto
  have "word_of_int ret \<noteq> n"
  proof
    assume e: "word_of_int ret = n"
    have "uint (word_of_int ret :: 32 word) = ret mod 2 ^ 32"
      by (simp add: uint_word_of_int)
    moreover have "ret < 2 ^ 32"
      using r(2) unsigned_less [of n, where ?'a = int] by simp
    ultimately have "uint (word_of_int ret :: 32 word) = ret"
      using r(1) by simp
    with e have "uint n = ret" by simp
    with r(2) show False by simp
  qed
  then show ?thesis by simp
qed

lemma full_count:
  "word_of_int (int (unat (n :: 32 word))) = n" "int (unat n) \<noteq> - 1"
proof -
  show "word_of_int (int (unat n)) = n" by simp
  have "0 \<le> int (unat n)" by (rule of_nat_0_le_iff)
  then show "int (unat n) \<noteq> - 1" by linarith
qed
lemma req0_eq: "Vmci_request ''{}'' = req0"
  by (simp add: Vmci_request_def req0_def NUL_def MAXBUF_def)
lemma host_request_vsock:
  assumes "vsock_init env (stack_id env) cid port w0 = (CONN_SUCCESS, s, w)"
  shows "host_request env vsock_be r a cid port w0 =
     (fst (vsock_get_reply env s r a w), fst (snd (vsock_get_reply env s r a w)),
      sys_close env (sock_id s) (snd (snd (vsock_get_reply env s r a w))))"
  using assms
  by (simp add: host_request_def vsock_be_def vsock_release_def CONN_SUCCESS_def case_prod_beta)

subsection \<open>Sending the request\<close>

text \<open>
  C6. \<open>vsock_get_reply\<close> writes the magic, then the length field, then \<open>mlen\<close> bytes of the
  message, as three calls of \<open>send\<close> in this order. When a \<open>send\<close> returns -1 or fewer
  bytes than it was given, the function returns \<open>CONN_FAILURE\<close> at once: the calls made
  are the writes up to the failing one and nothing more. When all three go through, the
  sends of the whole call are exactly these three.
\<close>

theorem C6_send_request:
  "(fst (send_res env (nsend w)) \<noteq> 4 \<longrightarrow>
      fst (vsock_get_reply env s r a w) = CONN_FAILURE
    \<and> new_events w (snd (snd (vsock_get_reply env s r a w))) = take 1 (request_writes env s r w))
   \<and> (fst (send_res env (nsend w)) = 4 \<and> fst (send_res env (nsend w + 1)) \<noteq> 4 \<longrightarrow>
      fst (vsock_get_reply env s r a w) = CONN_FAILURE
    \<and> new_events w (snd (snd (vsock_get_reply env s r a w))) = take 2 (request_writes env s r w))
   \<and> (fst (send_res env (nsend w)) = 4 \<and> fst (send_res env (nsend w + 1)) = 4
      \<and> (fst (send_res env (nsend w + 2)) = - 1
          \<or> (0 \<le> fst (send_res env (nsend w + 2))
              \<and> fst (send_res env (nsend w + 2)) < int (unat (mlen r)))) \<longrightarrow>
      fst (vsock_get_reply env s r a w) = CONN_FAILURE
    \<and> new_events w (snd (snd (vsock_get_reply env s r a w))) = request_writes env s r w)
   \<and> (fst (send_res env (nsend w)) = 4 \<and> fst (send_res env (nsend w + 1)) = 4
      \<and> fst (send_res env (nsend w + 2)) = int (unat (mlen r)) \<longrightarrow>
      take 3 (new_events w (snd (snd (vsock_get_reply env s r a w)))) = request_writes env s r w
    \<and> filter is_send (new_events w (snd (snd (vsock_get_reply env s r a w)))) =
        request_writes env s r w)"
proof -
  have c1: "fst (vsock_get_reply env s r a w) = CONN_FAILURE
    \<and> new_events w (snd (snd (vsock_get_reply env s r a w))) = take 1 (request_writes env s r w)"
    if "fst (send_res env (nsend w)) \<noteq> 4"
    using get_reply_send1_fails [OF that, of s r a]
    by (simp add: new_events_def fail_errno_def)
  have c2: "fst (vsock_get_reply env s r a w) = CONN_FAILURE
    \<and> new_events w (snd (snd (vsock_get_reply env s r a w))) = take 2 (request_writes env s r w)"
    if "fst (send_res env (nsend w)) = 4" "fst (send_res env (nsend w + 1)) \<noteq> 4"
    using get_reply_send2_fails [OF that, of s r a]
    by (simp add: new_events_def fail_errno_def)
  have c3: "fst (vsock_get_reply env s r a w) = CONN_FAILURE
    \<and> new_events w (snd (snd (vsock_get_reply env s r a w))) = request_writes env s r w"
    if "fst (send_res env (nsend w)) = 4" "fst (send_res env (nsend w + 1)) = 4"
      "fst (send_res env (nsend w + 2)) = - 1
          \<or> (0 \<le> fst (send_res env (nsend w + 2))
              \<and> fst (send_res env (nsend w + 2)) < int (unat (mlen r)))"
    using get_reply_send3_fails [OF that(1,2) short_or_error [OF that(3)], of s a]
    by (simp add: new_events_def fail_errno_def)
  have c4: "take 3 (new_events w (snd (snd (vsock_get_reply env s r a w)))) = request_writes env s r w
    \<and> filter is_send (new_events w (snd (snd (vsock_get_reply env s r a w)))) =
        request_writes env s r w"
    if "fst (send_res env (nsend w)) = 4" "fst (send_res env (nsend w + 1)) = 4"
      "fst (send_res env (nsend w + 2)) = int (unat (mlen r))"
  proof -
    have "fst (send_res env (nsend w + 2)) \<noteq> - 1"
      and "word_of_int (fst (send_res env (nsend w + 2))) = mlen r"
      unfolding that(3) by (rule full_count(2), rule full_count(1))
    from get_reply_sends_only [OF that(1,2) this, of s a]
    obtain rest where "trace (snd (snd (vsock_get_reply env s r a w))) =
           trace w @ request_writes env s r w @ rest" and "filter is_send rest = []"
      by blast
    then show ?thesis
      by (simp add: new_events_def) (simp add: request_writes_def)
  qed
  from c1 c2 c3 c4 show ?thesis by blast
qed

theorem C6_send_request_witness:
  "fst (send_res (env_ok\<lparr>send_res := (\<lambda>k. (- 1, 32))\<rparr>) (nsend world0)) \<noteq> 4
   \<and> fst (vsock_get_reply (env_ok\<lparr>send_res := (\<lambda>k. (- 1, 32))\<rparr>) sock0 req0 ans0 world0) = CONN_FAILURE
   \<and> new_events world0
        (snd (snd (vsock_get_reply (env_ok\<lparr>send_res := (\<lambda>k. (- 1, 32))\<rparr>) sock0 req0 ans0 world0))) =
      [SendU32 3 0xbadbeef (- 1)]
   \<and> fst (send_res (env_ok\<lparr>send_res := (\<lambda>k. if k = 0 then (4, 0) else (2, 0))\<rparr>) (nsend world0 + 1)) \<noteq> 4
   \<and> new_events world0
        (snd (snd (vsock_get_reply (env_ok\<lparr>send_res := (\<lambda>k. if k = 0 then (4, 0) else (2, 0))\<rparr>)
           sock0 req0 ans0 world0))) =
      [SendU32 3 0xbadbeef 4, SendU32 3 3 2]
   \<and> fst (send_res (env_ok\<lparr>send_res := (\<lambda>k. if k = 2 then (1, 0) else (4, 0))\<rparr>) (nsend world0 + 2))
        < int (unat (mlen req0))
   \<and> new_events world0
        (snd (snd (vsock_get_reply (env_ok\<lparr>send_res := (\<lambda>k. if k = 2 then (1, 0) else (4, 0))\<rparr>)
           sock0 req0 ans0 world0))) =
      [SendU32 3 0xbadbeef 4, SendU32 3 3 4, SendBuf 3 (''{}'' @ [NUL]) 3 1]
   \<and> fst (send_res env_ok (nsend world0 + 2)) = int (unat (mlen req0))
   \<and> filter is_send (new_events world0 (snd (snd (vsock_get_reply env_ok sock0 req0 ans0 world0)))) =
      [SendU32 3 0xbadbeef 4, SendU32 3 3 4, SendBuf 3 (''{}'' @ [NUL]) 3 3]"
  using C6_send_request [of "env_ok\<lparr>send_res := (\<lambda>k. (- 1, 32))\<rparr>" world0 sock0 req0 ans0]
    C6_send_request [of "env_ok\<lparr>send_res := (\<lambda>k. if k = 0 then (4, 0) else (2, 0))\<rparr>" world0 sock0 req0 ans0]
    C6_send_request [of "env_ok\<lparr>send_res := (\<lambda>k. if k = 2 then (1, 0) else (4, 0))\<rparr>" world0 sock0 req0 ans0]
    C6_send_request [of env_ok world0 sock0 req0 ans0]
  by (simp add: env_ok_def world0_def sock0_def req0_def request_writes_def)

subsection \<open>A wrong magic\<close>

text \<open>
  C4. When the request has been sent and the first \<open>recv\<close> delivers four bytes that are
  not \<open>MAGIC\<close>, \<open>vsock_get_reply\<close> returns \<open>CONN_FAILURE\<close> (which is not \<open>CONN_SUCCESS\<close>) with
  \<open>errno = EBADMSG\<close>. It makes no further \<open>recv\<close> or \<open>send\<close> and allocates nothing: after
  the one \<open>recv\<close> it only prints the message. \<open>host_request\<close> then closes the socket and
  returns \<open>CONN_FAILURE\<close>; \<open>errno\<close> is still \<open>EBADMSG\<close> unless \<open>close\<close> itself fails.
\<close>

theorem C4_wrong_magic:
  assumes "vsock_init env (stack_id env) cid port w0 = (CONN_SUCCESS, s, w)"
    and "fst (send_res env (nsend w)) = 4" and "fst (send_res env (nsend w + 1)) = 4"
    and "fst (send_res env (nsend w + 2)) \<noteq> - 1"
    and "word_of_int (fst (send_res env (nsend w + 2))) = mlen r"
    and "fst (recv_res env (nrecv w)) = 4"
    and "recv_u32 env (nrecv w) \<noteq> MAGIC env"
  shows "fst (vsock_get_reply env s r a w) = CONN_FAILURE
    \<and> CONN_FAILURE \<noteq> CONN_SUCCESS
    \<and> errno (snd (snd (vsock_get_reply env s r a w))) = EBADMSG
    \<and> new_events w (snd (snd (vsock_get_reply env s r a w))) =
        request_writes env s r w @
        [RecvU32 (sock_id s) 4, Stderr ''Wrong magic: got 0x%x expected 0x%x\<newline>'']
    \<and> nrecv (snd (snd (vsock_get_reply env s r a w))) = nrecv w + 1
    \<and> nsend (snd (snd (vsock_get_reply env s r a w))) = nsend w + 3
    \<and> nalloc (snd (snd (vsock_get_reply env s r a w))) = nalloc w
    \<and> fst (host_request env vsock_be r a cid port w0) = CONN_FAILURE
    \<and> fst (snd (host_request env vsock_be r a cid port w0)) = a
    \<and> new_events w (snd (snd (host_request env vsock_be r a cid port w0))) =
        request_writes env s r w @
        [RecvU32 (sock_id s) 4, Stderr ''Wrong magic: got 0x%x expected 0x%x\<newline>'',
         Close (sock_id s)]
    \<and> errno (snd (snd (host_request env vsock_be r a cid port w0))) =
        (if fst (close_res env) = - 1 then snd (close_res env) else EBADMSG)"
  by (simp add: host_request_vsock [OF assms(1)] get_reply_wrong_magic [OF assms(2-7)]
      new_events_def after_send_def CONN_FAILURE_def CONN_SUCCESS_def sys_close_def emit_def
      fail_errno_def)

theorem C4_wrong_magic_witness:
  "vsock_init (env_ok\<lparr>recv_u32 := (\<lambda>k. 0xdeadbeef)\<rparr>) (stack_id (env_ok\<lparr>recv_u32 := (\<lambda>k. 0xdeadbeef)\<rparr>))
     2 1234 world0 = (CONN_SUCCESS, sock0, world1)
   \<and> fst (recv_res (env_ok\<lparr>recv_u32 := (\<lambda>k. 0xdeadbeef)\<rparr>) (nrecv world1)) = 4
   \<and> recv_u32 (env_ok\<lparr>recv_u32 := (\<lambda>k. 0xdeadbeef)\<rparr>) (nrecv world1)
       \<noteq> MAGIC (env_ok\<lparr>recv_u32 := (\<lambda>k. 0xdeadbeef)\<rparr>)
   \<and> fst (host_request (env_ok\<lparr>recv_u32 := (\<lambda>k. 0xdeadbeef)\<rparr>) vsock_be req0 ans0 2 1234 world0)
       = CONN_FAILURE
   \<and> errno (snd (snd (host_request (env_ok\<lparr>recv_u32 := (\<lambda>k. 0xdeadbeef)\<rparr>) vsock_be req0 ans0
       2 1234 world0))) = EBADMSG
   \<and> new_events world1 (snd (snd (host_request (env_ok\<lparr>recv_u32 := (\<lambda>k. 0xdeadbeef)\<rparr>) vsock_be
       req0 ans0 2 1234 world0))) =
      [SendU32 3 0xbadbeef 4, SendU32 3 3 4, SendBuf 3 (''{}'' @ [NUL]) 3 3, RecvU32 3 4,
       Stderr ''Wrong magic: got 0x%x expected 0x%x\<newline>'', Close 3]"
proof -
  let ?env = "env_ok\<lparr>recv_u32 := (\<lambda>k. 0xdeadbeef)\<rparr>"
  have i: "vsock_init ?env (stack_id ?env) 2 1234 world0 = (CONN_SUCCESS, sock0, world1)"
    by (rule vsock_init_sample) (simp_all add: env_ok_def)
  have h: "fst (send_res ?env (nsend world1)) = 4" "fst (send_res ?env (nsend world1 + 1)) = 4"
    "fst (send_res ?env (nsend world1 + 2)) \<noteq> - 1"
    "word_of_int (fst (send_res ?env (nsend world1 + 2))) = mlen req0"
    "fst (recv_res ?env (nrecv world1)) = 4"
    "recv_u32 ?env (nrecv world1) \<noteq> MAGIC ?env"
    by (simp_all add: env_ok_def world1_def req0_def)
  from i h C4_wrong_magic [OF i h, of ans0] show ?thesis
    by (simp add: request_writes_def) (simp add: env_ok_def world1_def req0_def sock0_def)
qed

subsection \<open>A short reply\<close>

text \<open>
  C7. When the reply buffer has been allocated and the \<open>recv\<close> of the payload returns -1
  or fewer bytes than the declared length, \<open>vsock_get_reply\<close> returns \<open>CONN_FAILURE\<close>
  (which is not \<open>CONN_SUCCESS\<close>) and its last call is the \<open>free\<close> of the buffer, which is
  no longer allocated afterwards; \<open>a->buf\<close> still holds the address of the freed buffer.
\<close>

theorem C7_short_payload:
  assumes "fst (send_res env (nsend w)) = 4" and "fst (send_res env (nsend w + 1)) = 4"
    and "fst (send_res env (nsend w + 2)) \<noteq> - 1"
    and "word_of_int (fst (send_res env (nsend w + 2))) = mlen r"
    and "fst (recv_res env (nrecv w)) = 4"
    and "recv_u32 env (nrecv w) = MAGIC env"
    and "fst (recv_res env (nrecv w + 1)) = 4"
    and "alloc_res env (nalloc w) \<noteq> 0"
    and "fst (recv_res env (nrecv w + 2)) = - 1
         \<or> (0 \<le> fst (recv_res env (nrecv w + 2))
             \<and> fst (recv_res env (nrecv w + 2)) < int (unat (recv_u32 env (nrecv w + 1))))"
  shows "fst (vsock_get_reply env s r a w) = CONN_FAILURE
    \<and> CONN_FAILURE \<noteq> CONN_SUCCESS
    \<and> buf (fst (snd (vsock_get_reply env s r a w))) = alloc_res env (nalloc w)
    \<and> heap (snd (snd (vsock_get_reply env s r a w))) (alloc_res env (nalloc w)) = None
    \<and> last (trace (snd (snd (vsock_get_reply env s r a w)))) = Free (alloc_res env (nalloc w))
    \<and> new_events w (snd (snd (vsock_get_reply env s r a w))) =
        request_writes env s r w @
        [RecvU32 (sock_id s) 4, RecvU32 (sock_id s) 4,
         Calloc 1 (unat (recv_u32 env (nrecv w + 1))) (alloc_res env (nalloc w)),
         RecvBuf (sock_id s) (alloc_res env (nalloc w)) (unat (recv_u32 env (nrecv w + 1)))
           (fst (recv_res env (nrecv w + 2))),
         Free (alloc_res env (nalloc w))]"
  by (simp add: get_reply_recv_payload_fails [OF assms(1-8) short_or_error [OF assms(9)]]
      new_events_def after_send_def fail_errno_def CONN_FAILURE_def CONN_SUCCESS_def)

theorem C7_short_payload_witness:
  "alloc_res (env_ok\<lparr>recv_res := (\<lambda>k. if k = 2 then (2, 0) else (4, 0))\<rparr>) (nalloc world1) \<noteq> 0
   \<and> 0 \<le> fst (recv_res (env_ok\<lparr>recv_res := (\<lambda>k. if k = 2 then (2, 0) else (4, 0))\<rparr>) (nrecv world1 + 2))
   \<and> fst (recv_res (env_ok\<lparr>recv_res := (\<lambda>k. if k = 2 then (2, 0) else (4, 0))\<rparr>) (nrecv world1 + 2))
       < int (unat (recv_u32 (env_ok\<lparr>recv_res := (\<lambda>k. if k = 2 then (2, 0) else (4, 0))\<rparr>)
           (nrecv world1 + 1)))
   \<and> fst (vsock_get_reply (env_ok\<lparr>recv_res := (\<lambda>k. if k = 2 then (2, 0) else (4, 0))\<rparr>)
        sock0 req0 ans0 world1) = CONN_FAILURE
   \<and> heap (snd (snd (vsock_get_reply (env_ok\<lparr>recv_res := (\<lambda>k. if k = 2 then (2, 0) else (4, 0))\<rparr>)
        sock0 req0 ans0 world1))) 4096 = None
   \<and> new_events world1
        (snd (snd (vsock_get_reply (env_ok\<lparr>recv_res := (\<lambda>k. if k = 2 then (2, 0) else (4, 0))\<rparr>)
           sock0 req0 ans0 world1))) =
      [SendU32 3 0xbadbeef 4, SendU32 3 3 4, SendBuf 3 (''{}'' @ [NUL]) 3 3, RecvU32 3 4,
       RecvU32 3 4, Calloc 1 5 4096, RecvBuf 3 4096 5 2, Free 4096]"
proof -
  let ?env = "env_ok\<lparr>recv_res := (\<lambda>k. if k = 2 then (2, 0) else (4, 0))\<rparr>"
  have h: "fst (send_res ?env (nsend world1)) = 4" "fst (send_res ?env (nsend world1 + 1)) = 4"
    "fst (send_res ?env (nsend world1 + 2)) \<noteq> - 1"
    "word_of_int (fst (send_res ?env (nsend world1 + 2))) = mlen req0"
    "fst (recv_res ?env (nrecv world1)) = 4"
    "recv_u32 ?env (nrecv world1) = MAGIC ?env"
    "fst (recv_res ?env (nrecv world1 + 1)) = 4"
    "alloc_res ?env (nalloc world1) \<noteq> 0"
    "fst (recv_res ?env (nrecv world1 + 2)) = - 1
         \<or> (0 \<le> fst (recv_res ?env (nrecv world1 + 2))
             \<and> fst (recv_res ?env (nrecv world1 + 2)) < int (unat (recv_u32 ?env (nrecv world1 + 1))))"
    by (simp_all add: env_ok_def world1_def req0_def)
  from h C7_short_payload [OF h, of sock0 ans0] show ?thesis
    by (simp add: request_writes_def) (simp add: env_ok_def world1_def req0_def sock0_def)
qed

subsection \<open>The reply buffer\<close>

lemma length_reply_bytes: "length (reply_bytes env w) = unat (recv_u32 env (nrecv w + 1))"
  by (simp add: reply_bytes_def Let_def)

text \<open>
  C1 does not hold as the specification states it: the peer declares \<open>2^20 + 1\<close> bytes, more than
  \<open>MAXBUF\<close>, and \<open>vsock_get_reply\<close> allocates a buffer of that size and returns
  \<open>CONN_SUCCESS\<close>.
\<close>

theorem C1_no_ceiling_counterexample:
  "MAXBUF < unat (recv_u32 env_big (nrecv world1 + 1))
   \<and> fst (vsock_get_reply env_big sock0 req0 ans0 world1) = CONN_SUCCESS
   \<and> Calloc 1 1048577 4096 \<in> set (trace (snd (snd (vsock_get_reply env_big sock0 req0 ans0 world1))))
   \<and> map_option length
        (heap (snd (snd (vsock_get_reply env_big sock0 req0 ans0 world1)))
           (buf (fst (snd (vsock_get_reply env_big sock0 req0 ans0 world1))))) = Some 1048577"
proof -
  have h: "fst (send_res env_big (nsend world1)) = 4" "fst (send_res env_big (nsend world1 + 1)) = 4"
    "fst (send_res env_big (nsend world1 + 2)) \<noteq> - 1"
    "word_of_int (fst (send_res env_big (nsend world1 + 2))) = mlen req0"
    "fst (recv_res env_big (nrecv world1)) = 4"
    "recv_u32 env_big (nrecv world1) = MAGIC env_big"
    "fst (recv_res env_big (nrecv world1 + 1)) = 4"
    "alloc_res env_big (nalloc world1) \<noteq> 0"
    "fst (recv_res env_big (nrecv world1 + 2)) \<noteq> - 1"
    "word_of_int (fst (recv_res env_big (nrecv world1 + 2))) = recv_u32 env_big (nrecv world1 + 1)"
    by (simp_all add: env_big_def env_ok_def world1_def req0_def)
  have b: "unat (recv_u32 env_big (nrecv world1 + 1)) = 1048577"
    and p: "alloc_res env_big (nalloc world1) = 4096"
    by (simp_all add: env_big_def env_ok_def world1_def)
  from b p show ?thesis
    by (simp add: get_reply_success [OF h, of sock0 ans0] length_reply_bytes MAXBUF_def)
qed

text \<open>
  C1, amended. Once the request has been sent and the magic received, \<open>vsock_get_reply\<close>
  allocates nothing as long as the length field has not been read in full; and when it has,
  the next call is \<open>calloc(1, b)\<close> for the declared length \<open>b\<close>, whatever \<open>b\<close> is: there is no
  comparison with \<open>MAXBUF\<close>. The call fails here only when \<open>calloc\<close> returns \<open>NULL\<close>; when the
  payload then arrives in full the result is \<open>CONN_SUCCESS\<close> with a buffer of \<open>b\<close> bytes.
\<close>

theorem C1_reply_allocation:
  assumes "fst (send_res env (nsend w)) = 4" and "fst (send_res env (nsend w + 1)) = 4"
    and "fst (send_res env (nsend w + 2)) \<noteq> - 1"
    and "word_of_int (fst (send_res env (nsend w + 2))) = mlen r"
    and "fst (recv_res env (nrecv w)) = 4"
    and "recv_u32 env (nrecv w) = MAGIC env"
  shows "(fst (recv_res env (nrecv w + 1)) \<noteq> 4 \<longrightarrow>
            fst (vsock_get_reply env s r a w) = CONN_FAILURE
          \<and> nalloc (snd (snd (vsock_get_reply env s r a w))) = nalloc w
          \<and> heap (snd (snd (vsock_get_reply env s r a w))) = heap w)
       \<and> (fst (recv_res env (nrecv w + 1)) = 4 \<longrightarrow>
            take 6 (new_events w (snd (snd (vsock_get_reply env s r a w)))) =
              request_writes env s r w @
              [RecvU32 (sock_id s) 4, RecvU32 (sock_id s) 4,
               Calloc 1 (unat (recv_u32 env (nrecv w + 1))) (alloc_res env (nalloc w))])
       \<and> (fst (recv_res env (nrecv w + 1)) = 4 \<and> alloc_res env (nalloc w) = 0 \<longrightarrow>
            fst (vsock_get_reply env s r a w) = CONN_FAILURE
          \<and> errno (snd (snd (vsock_get_reply env s r a w))) = ENOMEM)
       \<and> (fst (recv_res env (nrecv w + 1)) = 4 \<and> alloc_res env (nalloc w) \<noteq> 0
          \<and> fst (recv_res env (nrecv w + 2)) = int (unat (recv_u32 env (nrecv w + 1))) \<longrightarrow>
            fst (vsock_get_reply env s r a w) = CONN_SUCCESS
          \<and> buf (fst (snd (vsock_get_reply env s r a w))) = alloc_res env (nalloc w)
          \<and> map_option length
               (heap (snd (snd (vsock_get_reply env s r a w))) (alloc_res env (nalloc w))) =
             Some (unat (recv_u32 env (nrecv w + 1))))"
proof -
  let ?res = "vsock_get_reply env s r a w"
  let ?b = "recv_u32 env (nrecv w + 1)"
  let ?p = "alloc_res env (nalloc w)"
  let ?six = "request_writes env s r w @
              [RecvU32 (sock_id s) 4, RecvU32 (sock_id s) 4, Calloc 1 (unat ?b) ?p]"
  have c1: "fst ?res = CONN_FAILURE \<and> nalloc (snd (snd ?res)) = nalloc w
      \<and> heap (snd (snd ?res)) = heap w"
    if "fst (recv_res env (nrecv w + 1)) \<noteq> 4"
    by (simp add: get_reply_recv_len_fails [OF assms that] after_send_def fail_errno_def)
  have c3: "fst ?res = CONN_FAILURE \<and> errno (snd (snd ?res)) = ENOMEM
      \<and> take 6 (new_events w (snd (snd ?res))) = ?six"
    if "fst (recv_res env (nrecv w + 1)) = 4" "?p = 0"
    using that(2)
    by (simp add: get_reply_calloc_fails [OF assms that] after_send_def new_events_def)
       (simp add: request_writes_def)
  have c4: "fst ?res = CONN_SUCCESS \<and> buf (fst (snd ?res)) = ?p
      \<and> map_option length (heap (snd (snd ?res)) ?p) = Some (unat ?b)
      \<and> take 6 (new_events w (snd (snd ?res))) = ?six"
    if "fst (recv_res env (nrecv w + 1)) = 4" "?p \<noteq> 0"
      "fst (recv_res env (nrecv w + 2)) \<noteq> - 1"
      "word_of_int (fst (recv_res env (nrecv w + 2))) = ?b"
    using length_reply_bytes [of env w]
    by (simp add: get_reply_success [OF assms that] after_send_def new_events_def)
       (simp add: request_writes_def)
  have c5: "take 6 (new_events w (snd (snd ?res))) = ?six"
    if "fst (recv_res env (nrecv w + 1)) = 4" "?p \<noteq> 0"
      "fst (recv_res env (nrecv w + 2)) = - 1
       \<or> word_of_int (fst (recv_res env (nrecv w + 2))) \<noteq> ?b"
    by (simp add: get_reply_recv_payload_fails [OF assms that] after_send_def new_events_def
        fail_errno_def) (simp add: request_writes_def)
  have c2: "take 6 (new_events w (snd (snd ?res))) = ?six"
    if "fst (recv_res env (nrecv w + 1)) = 4"
    using c3 [OF that] c4 [OF that] c5 [OF that] by blast
  have c4': "fst ?res = CONN_SUCCESS \<and> buf (fst (snd ?res)) = ?p
      \<and> map_option length (heap (snd (snd ?res)) ?p) = Some (unat ?b)"
    if "fst (recv_res env (nrecv w + 1)) = 4" "?p \<noteq> 0"
      "fst (recv_res env (nrecv w + 2)) = int (unat ?b)"
  proof -
    have "fst (recv_res env (nrecv w + 2)) \<noteq> - 1"
      and "word_of_int (fst (recv_res env (nrecv w + 2))) = ?b"
      unfolding that(3) by (rule full_count(2), rule full_count(1))
    from c4 [OF that(1,2) this] show ?thesis by blast
  qed
  from c1 c2 c3 c4' show ?thesis by blast
qed

theorem C1_reply_allocation_witness:
  "fst (recv_res env_big (nrecv world1 + 1)) = 4
   \<and> alloc_res env_big (nalloc world1) \<noteq> 0
   \<and> fst (recv_res env_big (nrecv world1 + 2)) = int (unat (recv_u32 env_big (nrecv world1 + 1)))
   \<and> MAXBUF < unat (recv_u32 env_big (nrecv world1 + 1))
   \<and> fst (vsock_get_reply env_big sock0 req0 ans0 world1) = CONN_SUCCESS
   \<and> take 6 (new_events world1 (snd (snd (vsock_get_reply env_big sock0 req0 ans0 world1)))) =
      [SendU32 3 0xbadbeef 4, SendU32 3 3 4, SendBuf 3 (''{}'' @ [NUL]) 3 3, RecvU32 3 4,
       RecvU32 3 4, Calloc 1 1048577 4096]
   \<and> fst (recv_res (env_ok\<lparr>recv_res := (\<lambda>k. if k = 0 then (4, 0) else (- 1, 104))\<rparr>) (nrecv world1 + 1))
       \<noteq> 4
   \<and> nalloc (snd (snd (vsock_get_reply
        (env_ok\<lparr>recv_res := (\<lambda>k. if k = 0 then (4, 0) else (- 1, 104))\<rparr>) sock0 req0 ans0 world1))) = 0
   \<and> fst (recv_res (env_ok\<lparr>alloc_res := (\<lambda>k. 0)\<rparr>) (nrecv world1 + 1)) = 4
   \<and> alloc_res (env_ok\<lparr>alloc_res := (\<lambda>k. 0)\<rparr>) (nalloc world1) = 0
   \<and> fst (vsock_get_reply (env_ok\<lparr>alloc_res := (\<lambda>k. 0)\<rparr>) sock0 req0 ans0 world1) = CONN_FAILURE
   \<and> errno (snd (snd (vsock_get_reply (env_ok\<lparr>alloc_res := (\<lambda>k. 0)\<rparr>) sock0 req0 ans0 world1)))
       = ENOMEM"
proof -
  let ?e2 = "env_ok\<lparr>recv_res := (\<lambda>k. if k = 0 then (4, 0) else (- 1, 104))\<rparr>"
  let ?e3 = "env_ok\<lparr>alloc_res := (\<lambda>k. 0)\<rparr>"
  have h1: "fst (send_res env_big (nsend world1)) = 4" "fst (send_res env_big (nsend world1 + 1)) = 4"
    "fst (send_res env_big (nsend world1 + 2)) \<noteq> - 1"
    "word_of_int (fst (send_res env_big (nsend world1 + 2))) = mlen req0"
    "fst (recv_res env_big (nrecv world1)) = 4"
    "recv_u32 env_big (nrecv world1) = MAGIC env_big"
    by (simp_all add: env_big_def env_ok_def world1_def req0_def)
  have h2: "fst (send_res ?e2 (nsend world1)) = 4" "fst (send_res ?e2 (nsend world1 + 1)) = 4"
    "fst (send_res ?e2 (nsend world1 + 2)) \<noteq> - 1"
    "word_of_int (fst (send_res ?e2 (nsend world1 + 2))) = mlen req0"
    "fst (recv_res ?e2 (nrecv world1)) = 4"
    "recv_u32 ?e2 (nrecv world1) = MAGIC ?e2"
    by (simp_all add: env_ok_def world1_def req0_def)
  have h3: "fst (send_res ?e3 (nsend world1)) = 4" "fst (send_res ?e3 (nsend world1 + 1)) = 4"
    "fst (send_res ?e3 (nsend world1 + 2)) \<noteq> - 1"
    "word_of_int (fst (send_res ?e3 (nsend world1 + 2))) = mlen req0"
    "fst (recv_res ?e3 (nrecv world1)) = 4"
    "recv_u32 ?e3 (nrecv world1) = MAGIC ?e3"
    by (simp_all add: env_ok_def world1_def req0_def)
  have v: "fst (recv_res env_big (nrecv world1 + 1)) = 4"
    "alloc_res env_big (nalloc world1) = 4096"
    "fst (recv_res env_big (nrecv world1 + 2)) = 1048577"
    "recv_u32 env_big (nrecv world1 + 1) = 1048577"
    "send_res env_big = send_res env_ok" "MAGIC env_big = 0xbadbeef"
    by (simp_all add: env_big_def env_ok_def world1_def)
  have a: "fst (recv_res env_big (nrecv world1 + 1)) = 4
   \<and> alloc_res env_big (nalloc world1) \<noteq> 0
   \<and> fst (recv_res env_big (nrecv world1 + 2)) = int (unat (recv_u32 env_big (nrecv world1 + 1)))
   \<and> MAXBUF < unat (recv_u32 env_big (nrecv world1 + 1))"
    using v by (simp add: MAXBUF_def)
  with v C1_reply_allocation [OF h1, of sock0 ans0]
  have b: "fst (vsock_get_reply env_big sock0 req0 ans0 world1) = CONN_SUCCESS
   \<and> take 6 (new_events world1 (snd (snd (vsock_get_reply env_big sock0 req0 ans0 world1)))) =
      [SendU32 3 0xbadbeef 4, SendU32 3 3 4, SendBuf 3 (''{}'' @ [NUL]) 3 3, RecvU32 3 4,
       RecvU32 3 4, Calloc 1 1048577 4096]"
    by (simp add: request_writes_def) (simp add: env_ok_def world1_def req0_def sock0_def)
  have c: "fst (recv_res ?e2 (nrecv world1 + 1)) \<noteq> 4
   \<and> nalloc (snd (snd (vsock_get_reply ?e2 sock0 req0 ans0 world1))) = 0"
    using C1_reply_allocation [OF h2, of sock0 ans0]
    by (simp add: env_ok_def world1_def)
  have d: "fst (recv_res ?e3 (nrecv world1 + 1)) = 4
   \<and> alloc_res ?e3 (nalloc world1) = 0
   \<and> fst (vsock_get_reply ?e3 sock0 req0 ans0 world1) = CONN_FAILURE
   \<and> errno (snd (snd (vsock_get_reply ?e3 sock0 req0 ans0 world1))) = ENOMEM"
    using C1_reply_allocation [OF h3, of sock0 ans0]
    by (simp add: env_ok_def world1_def)
  from a b c d show ?thesis by blast
qed

subsection \<open>An oversized request\<close>

lemma mlen_oversized:
  assumes "MAXBUF < length (cstr json)"
  shows "mlen (Vmci_request json) = 1048577"
proof -
  have "unat (mlen (Vmci_request json)) = unat (1048577 :: 32 word)"
    using assms by (simp add: Vmci_request_mlen MAXBUF_def min_def)
  then show ?thesis
    by (simp only: word_unat_eq_iff)
qed

lemma Vmci_request_oversized:
  assumes "MAXBUF < length (cstr json)"
  shows "Vmci_request json = \<lparr>mlen = 1048577, msg = json\<rparr>"
  using mlen_oversized [OF assms] by (simp add: Vmci_request_def)

lemma get_reply_begins_with_writes:
  assumes "fst (send_res env (nsend w)) = 4" and "fst (send_res env (nsend w + 1)) = 4"
  shows "take 3 (new_events w (snd (snd (vsock_get_reply env s r a w)))) = request_writes env s r w"
proof (cases "fst (send_res env (nsend w + 2)) = - 1
         \<or> word_of_int (fst (send_res env (nsend w + 2))) \<noteq> mlen r")
  case True
  show ?thesis
    by (simp add: get_reply_send3_fails [OF assms True] new_events_def fail_errno_def)
       (simp add: request_writes_def)
next
  case False
  then have "fst (send_res env (nsend w + 2)) \<noteq> - 1"
    and "word_of_int (fst (send_res env (nsend w + 2))) = mlen r"
    by simp_all
  from get_reply_sends_only [OF assms this, of s a]
  obtain rest where "trace (snd (snd (vsock_get_reply env s r a w))) =
           trace w @ request_writes env s r w @ rest"
    by blast
  then show ?thesis
    by (simp add: new_events_def) (simp add: request_writes_def)
qed

lemma sys_close_trace: "trace (sys_close env fd w) = trace w @ [Close fd]"
  by (simp add: sys_close_def emit_def fail_errno_def)

lemma get_reply_trace_grows:
  "\<exists>evs. trace (snd (snd (vsock_get_reply env s r a w))) = trace w @ evs"
  by (auto simp add: get_reply_defs)

lemma get_reply_first_write:
  "take 1 (new_events w (snd (snd (vsock_get_reply env s r a w)))) =
     [SendU32 (sock_id s) (MAGIC env) (fst (send_res env (nsend w)))]"
proof -
  consider (one) "fst (send_res env (nsend w)) \<noteq> 4"
    | (two) "fst (send_res env (nsend w)) = 4" "fst (send_res env (nsend w + 1)) \<noteq> 4"
    | (three) "fst (send_res env (nsend w)) = 4" "fst (send_res env (nsend w + 1)) = 4"
    by blast
  then show ?thesis
  proof cases
    case one
    then show ?thesis
      by (simp add: get_reply_send1_fails new_events_def fail_errno_def request_writes_def)
  next
    case two
    then show ?thesis
      by (simp add: get_reply_send2_fails new_events_def fail_errno_def request_writes_def)
  next
    case three
    have "take 1 (take 3 (new_events w (snd (snd (vsock_get_reply env s r a w))))) =
        take 1 (request_writes env s r w)"
      by (simp only: get_reply_begins_with_writes [OF three])
    then show ?thesis
      by (simp add: request_writes_def)
  qed
qed

lemma big_request_facts:
  "length big_request = 1048577" "cstr big_request = big_request"
  "take 1048577 (big_request @ [NUL]) = big_request"
proof -
  show l: "length big_request = 1048577"
    by (simp add: big_request_def)
  have "NUL \<notin> set big_request"
    by (simp add: big_request_def NUL_def)
  then show "cstr big_request = big_request"
    by (rule cstr_id)
  from l show "take 1048577 (big_request @ [NUL]) = big_request"
    by simp
qed

lemma env_big_send_init:
  "vsock_init env_big_send (stack_id env_big_send) ESX_VMCI_CID 1234 world0 =
     (CONN_SUCCESS, sock0, world1)"
  unfolding ESX_VMCI_CID_def
  by (rule vsock_init_sample) (simp_all add: env_big_send_def env_ok_def)

text \<open>
  C2 does not hold as the specification states it: for a request of \<open>2^20 + 1\<close> bytes over the vsocket
  backend, \<open>Vmci_GetReply\<close> opens the socket, sends the first \<open>2^20 + 1\<close> bytes of the request
  and returns \<open>CONN_SUCCESS\<close>.
\<close>

theorem C2_oversized_request_counterexample:
  "MAXBUF < length (cstr big_request)
   \<and> fst (Vmci_GetReply env_big_send 1234 big_request ''vsocket'' ans0 world0) = CONN_SUCCESS
   \<and> Socket 40 3
       \<in> set (trace (snd (snd (Vmci_GetReply env_big_send 1234 big_request ''vsocket'' ans0 world0))))
   \<and> SendBuf 3 big_request 1048577 1048577
       \<in> set (trace (snd (snd (Vmci_GetReply env_big_send 1234 big_request ''vsocket'' ans0 world0))))"
proof -
  let ?r = "\<lparr>mlen = 1048577, msg = big_request\<rparr>"
  have big: "MAXBUF < length (cstr big_request)"
    by (simp add: big_request_facts MAXBUF_def)
  have v: "Vmci_GetReply env_big_send 1234 big_request ''vsocket'' ans0 world0 =
      host_request env_big_send vsock_be ?r ans0 ESX_VMCI_CID 1234 world0"
    by (simp add: Vmci_GetReply_def get_backend_eq cstr_def NUL_def Vmci_request_oversized [OF big])
  have h: "fst (send_res env_big_send (nsend world1)) = 4"
    "fst (send_res env_big_send (nsend world1 + 1)) = 4"
    "fst (send_res env_big_send (nsend world1 + 2)) \<noteq> - 1"
    "word_of_int (fst (send_res env_big_send (nsend world1 + 2))) = mlen ?r"
    "fst (recv_res env_big_send (nrecv world1)) = 4"
    "recv_u32 env_big_send (nrecv world1) = MAGIC env_big_send"
    "fst (recv_res env_big_send (nrecv world1 + 1)) = 4"
    "alloc_res env_big_send (nalloc world1) \<noteq> 0"
    "fst (recv_res env_big_send (nrecv world1 + 2)) \<noteq> - 1"
    "word_of_int (fst (recv_res env_big_send (nrecv world1 + 2))) =
       recv_u32 env_big_send (nrecv world1 + 1)"
    by (simp_all add: env_big_send_def env_ok_def world1_def)
  have e: "fst (send_res env_big_send (Suc (Suc (nsend world1)))) = 1048577"
    "sock_id sock0 = 3" "trace world1 = [GetAFValue 40, Socket 40 3,
               Connect 3 \<lparr>svm_family = 40, svm_cid = 2, svm_port = 1234\<rparr> 0]"
    by (simp_all add: env_big_send_def env_ok_def world1_def sock0_def)
  from big show ?thesis
    by (simp add: v host_request_vsock [OF env_big_send_init]
        get_reply_success [OF h, of sock0 ans0] sys_close_trace after_send_def
        request_writes_def big_request_facts e)
qed

text \<open>
  C2, amended. A request longer than \<open>MAXBUF\<close> is not rejected: \<open>Vmci_GetReply\<close> sets the
  length field to \<open>2^20 + 1\<close> and calls \<open>host_request\<close>, as it does for a request within the
  limit. Over the dummy backend the call returns \<open>CONN_SUCCESS\<close>; over the vsocket backend,
  once the connection is open, the write of the frame begins with the magic.
\<close>

theorem C2_oversized_request:
  assumes "MAXBUF < length (cstr json)"
  shows "Vmci_request json = \<lparr>mlen = 1048577, msg = json\<rparr>
    \<and> Vmci_GetReply env port json ''vsocket'' ans w =
        host_request env vsock_be \<lparr>mlen = 1048577, msg = json\<rparr> ans ESX_VMCI_CID port w
    \<and> Vmci_GetReply env port json ''dummy'' ans w =
        host_request env dummy_be \<lparr>mlen = 1048577, msg = json\<rparr> ans ESX_VMCI_CID port w
    \<and> fst (Vmci_GetReply env port json ''dummy'' ans w) = CONN_SUCCESS
    \<and> (vsock_init env (stack_id env) ESX_VMCI_CID port w = (CONN_SUCCESS, s, w1) \<longrightarrow>
        take 1 (new_events w1 (snd (snd (Vmci_GetReply env port json ''vsocket'' ans w)))) =
          [SendU32 (sock_id s) (MAGIC env) (fst (send_res env (nsend w1)))])"
proof -
  note rq = Vmci_request_oversized [OF assms]
  have v: "Vmci_GetReply env port json ''vsocket'' ans w =
        host_request env vsock_be \<lparr>mlen = 1048577, msg = json\<rparr> ans ESX_VMCI_CID port w"
    by (simp add: Vmci_GetReply_def get_backend_eq cstr_def NUL_def rq)
  have d: "Vmci_GetReply env port json ''dummy'' ans w =
        host_request env dummy_be \<lparr>mlen = 1048577, msg = json\<rparr> ans ESX_VMCI_CID port w"
    by (simp add: Vmci_GetReply_def get_backend_eq cstr_def NUL_def rq)
  have ds: "fst (Vmci_GetReply env port json ''dummy'' ans w) = CONN_SUCCESS"
    by (simp add: dummy_exchange Let_def)
  have io: "take 1 (new_events w1 (snd (snd (Vmci_GetReply env port json ''vsocket'' ans w)))) =
          [SendU32 (sock_id s) (MAGIC env) (fst (send_res env (nsend w1)))]"
    if i: "vsock_init env (stack_id env) ESX_VMCI_CID port w = (CONN_SUCCESS, s, w1)"
  proof -
    let ?r = "\<lparr>mlen = 1048577, msg = json\<rparr>"
    let ?g = "vsock_get_reply env s ?r ans w1"
    obtain evs where t: "trace (snd (snd ?g)) = trace w1 @ evs"
      using get_reply_trace_grows by blast
    have "take 1 (new_events w1 (snd (snd ?g))) =
        [SendU32 (sock_id s) (MAGIC env) (fst (send_res env (nsend w1)))]"
      by (rule get_reply_first_write)
    with t have e: "take 1 evs = [SendU32 (sock_id s) (MAGIC env) (fst (send_res env (nsend w1)))]"
      by (simp add: new_events_def)
    have n: "new_events w1 (snd (snd (Vmci_GetReply env port json ''vsocket'' ans w))) =
        evs @ [Close (sock_id s)]"
      by (simp add: v host_request_vsock [OF i] sys_close_trace t new_events_def)
    have "evs \<noteq> []"
      using e by auto
    then have "1 \<le> length evs"
      by (cases evs) simp_all
    with e show ?thesis
      unfolding n by simp
  qed
  from rq v d ds io show ?thesis by blast
qed

theorem C2_oversized_request_witness:
  "MAXBUF < length (cstr big_request)
   \<and> vsock_init env_big_send (stack_id env_big_send) ESX_VMCI_CID 1234 world0 =
       (CONN_SUCCESS, sock0, world1)
   \<and> Vmci_request big_request = \<lparr>mlen = 1048577, msg = big_request\<rparr>
   \<and> fst (Vmci_GetReply env_big_send 1234 big_request ''dummy'' ans0 world0) = CONN_SUCCESS
   \<and> take 1 (new_events world1
        (snd (snd (Vmci_GetReply env_big_send 1234 big_request ''vsocket'' ans0 world0)))) =
      [SendU32 3 0xbadbeef 4]"
proof -
  have big: "MAXBUF < length (cstr big_request)"
    by (simp add: big_request_facts MAXBUF_def)
  have e: "fst (send_res env_big_send (nsend world1)) = 4"
    "sock_id sock0 = 3" "MAGIC env_big_send = 0xbadbeef"
    by (simp_all add: env_big_send_def env_ok_def world1_def sock0_def)
  from C2_oversized_request [OF big, of env_big_send 1234 ans0 world0 sock0 world1]
    env_big_send_init
  have r: "Vmci_request big_request = \<lparr>mlen = 1048577, msg = big_request\<rparr>
    \<and> fst (Vmci_GetReply env_big_send 1234 big_request ''dummy'' ans0 world0) = CONN_SUCCESS
    \<and> take 1 (new_events world1
        (snd (snd (Vmci_GetReply env_big_send 1234 big_request ''vsocket'' ans0 world0)))) =
      [SendU32 (sock_id sock0) (MAGIC env_big_send) (fst (send_res env_big_send (nsend world1)))]"
    by blast
  from r [unfolded e] big env_big_send_init show ?thesis
    by blast
qed

subsection \<open>Releasing the connection\<close>

lemma closed_fds_append: "closed_fds (xs @ ys) = closed_fds xs @ closed_fds ys"
  by (induction xs rule: closed_fds.induct) simp_all

lemma opened_fds_append: "opened_fds (xs @ ys) = opened_fds xs @ opened_fds ys"
  by (induction xs rule: opened_fds.induct) simp_all

lemma get_reply_no_sockets:
  "\<exists>evs. trace (snd (snd (vsock_get_reply env s r a w))) = trace w @ evs
     \<and> closed_fds evs = [] \<and> opened_fds evs = []"
  by (auto simp add: get_reply_defs)

lemma get_family_trace:
  "trace (snd (vsock_get_family env w)) =
     trace w @ (if af_static w = - 1 then [GetAFValue (getaf_val env)] else [])"
  by (simp add: vsock_get_family_def VMCISock_GetAFValue_def emit_def)

lemma host_request_vsock_sockets:
  "closed_fds (new_events w (snd (snd (host_request env vsock_be req ans cid port w)))) =
     opened_fds (new_events w (snd (snd (host_request env vsock_be req ans cid port w))))
   \<and> closed_fds (new_events w (snd (snd (host_request env vsock_be req ans cid port w)))) =
     (if fst (vsock_get_family env w) \<noteq> - 1 \<and> fst (socket_res env) \<noteq> - 1
      then [fst (socket_res env)] else [])
   \<and> (fst (vsock_init env (stack_id env) cid port w) = CONN_SUCCESS \<longrightarrow>
        last (trace (snd (snd (host_request env vsock_be req ans cid port w)))) =
          Close (fst (socket_res env)))"
proof -
  let ?h = "host_request env vsock_be req ans cid port w"
  let ?i = "vsock_init env (stack_id env) cid port w"
  have be: "init_sock vsock_be = vsock_init"
    by (simp add: vsock_be_def)
  consider (nofam) "fst (vsock_get_family env w) = - 1"
    | (nosock) "fst (vsock_get_family env w) \<noteq> - 1" "fst (socket_res env) = - 1"
    | (noconn) "fst (vsock_get_family env w) \<noteq> - 1" "fst (socket_res env) \<noteq> - 1"
        "fst (connect_res env) \<noteq> 0"
    | (conn) "fst (vsock_get_family env w) \<noteq> - 1" "fst (socket_res env) \<noteq> - 1"
        "fst (connect_res env) = 0"
    by blast
  then show ?thesis
  proof cases
    case nofam
    have i: "?i = (CONN_FAILURE, stack_id env, (snd (vsock_get_family env w))\<lparr>errno := EAFNOSUPPORT\<rparr>)"
      by (rule vsock_init_no_family [OF nofam])
    then have "fst (init_sock vsock_be env (stack_id env) cid port w) \<noteq> 0"
      by (simp add: be CONN_FAILURE_def)
    from host_request_init_fails [OF this] show ?thesis
      using nofam
      by (simp add: be i new_events_def get_family_trace CONN_FAILURE_def CONN_SUCCESS_def)
  next
    case nosock
    note i = vsock_init_socket_fails [OF nosock, of "stack_id env" cid port]
    then have "fst (init_sock vsock_be env (stack_id env) cid port w) \<noteq> 0"
      by (simp add: be CONN_FAILURE_def)
    from host_request_init_fails [OF this] show ?thesis
      using nosock
      by (simp add: be i new_events_def get_family_trace CONN_FAILURE_def CONN_SUCCESS_def)
  next
    case noconn
    note i = vsock_init_connect_fails [OF noconn, of "stack_id env" cid port]
    then have "fst (init_sock vsock_be env (stack_id env) cid port w) \<noteq> 0"
      by (simp add: be CONN_FAILURE_def Let_def)
    from host_request_init_fails [OF this] show ?thesis
      using noconn
      by (simp add: be i new_events_def get_family_trace CONN_FAILURE_def CONN_SUCCESS_def
          Let_def)
  next
    case conn
    let ?fam = "fst (vsock_get_family env w)"
    let ?sock = "fst (socket_res env)"
    let ?sa = "\<lparr>svm_family = ?fam, svm_cid = cid, svm_port = port\<rparr>"
    let ?gf = "if af_static w = - 1 then [GetAFValue (getaf_val env)] else []"
    define s where "s = (stack_id env)\<lparr>sock_id := ?sock, addr := ?sa\<rparr>"
    define w2 where "w2 = (snd (vsock_get_family env w))
        \<lparr>trace := trace (snd (vsock_get_family env w)) @ [Socket ?fam ?sock, Connect ?sock ?sa 0]\<rparr>"
    have i: "?i = (CONN_SUCCESS, s, w2)"
      using vsock_init_succeeds [OF conn, of "stack_id env" cid port]
      by (simp add: Let_def s_def w2_def)
    have tw2: "trace w2 = trace w @ ?gf @ [Socket ?fam ?sock, Connect ?sock ?sa 0]"
      by (simp add: w2_def get_family_trace)
    obtain evs where t: "trace (snd (snd (vsock_get_reply env s req ans w2))) = trace w2 @ evs"
      and c: "closed_fds evs = []" and p: "opened_fds evs = []"
      using get_reply_no_sockets by blast
    have th: "trace (snd (snd ?h)) = trace w2 @ evs @ [Close ?sock]"
      by (simp add: host_request_vsock [OF i] sys_close_trace t) (simp add: s_def)
    then have n: "new_events w (snd (snd ?h)) =
        ?gf @ [Socket ?fam ?sock, Connect ?sock ?sa 0] @ evs @ [Close ?sock]"
      by (simp add: new_events_def tw2)
    have l: "last (trace (snd (snd ?h))) = Close ?sock"
      unfolding th by simp
    show ?thesis
      unfolding n using conn c p l
      by (simp add: closed_fds_append opened_fds_append)
  qed
qed

lemma host_request_dummy_trace:
  "new_events w (snd (snd (host_request env dummy_be req ans cid port w))) =
     [Stdout ''dummy_init: connected.\<newline>'',
      Stdout (''dummy_get_reply: got request '' @ cstr (msg req) @ ''.\<newline>''),
      Stdout ''dummy_get_reply: replying empty (for now).\<newline>'',
      Strdup ''none'' (alloc_res env (nalloc w)),
      Stdout ''dummy_release: released.\<newline>'']"
  by (simp add: host_request_def dummy_be_def dummy_init_def dummy_get_reply_def
      dummy_release_def sys_defs Let_def CONN_SUCCESS_def new_events_def)

text \<open>
  C3. In every run of \<open>host_request\<close> over the vsocket backend, the descriptors closed are
  exactly the descriptors \<open>socket\<close> returned, each once, and there is at most one. When
  \<open>vsock_init\<close> succeeds, the socket is closed once, by the last call before \<open>host_request\<close>
  returns, whatever \<open>vsock_get_reply\<close> did; when \<open>connect\<close> fails after the socket was created,
  \<open>host_request\<close> fails and the socket is closed once. Over the dummy backend
  \<open>dummy_release\<close> runs once. For any backend: when its \<open>init_sock\<close> returns 0, the final
  world is the one its \<open>release_sock\<close> returns, applied once to the world \<open>get_reply\<close> left;
  when \<open>init_sock\<close> fails, the world is the one \<open>init_sock\<close> left.
\<close>

theorem C3_release_once:
  "closed_fds (new_events w (snd (snd (host_request env vsock_be req ans cid port w)))) =
     opened_fds (new_events w (snd (snd (host_request env vsock_be req ans cid port w))))
   \<and> length (closed_fds (new_events w (snd (snd (host_request env vsock_be req ans cid port w)))))
       \<le> 1
   \<and> (fst (vsock_init env (stack_id env) cid port w) = CONN_SUCCESS \<longrightarrow>
        closed_fds (new_events w (snd (snd (host_request env vsock_be req ans cid port w)))) =
          [fst (socket_res env)]
      \<and> last (trace (snd (snd (host_request env vsock_be req ans cid port w)))) =
          Close (fst (socket_res env)))
   \<and> (fst (vsock_get_family env w) \<noteq> - 1 \<and> fst (socket_res env) \<noteq> - 1
      \<and> fst (connect_res env) \<noteq> 0 \<longrightarrow>
        fst (host_request env vsock_be req ans cid port w) = CONN_FAILURE
      \<and> closed_fds (new_events w (snd (snd (host_request env vsock_be req ans cid port w)))) =
          [fst (socket_res env)])
   \<and> count_list (new_events w (snd (snd (host_request env dummy_be req ans cid port w))))
        (Stdout ''dummy_release: released.\<newline>'') = 1
   \<and> (fst (init_sock be env (stack_id env) cid port w) = 0 \<longrightarrow>
        snd (snd (host_request env be req ans cid port w)) =
          release_sock be env (fst (snd (init_sock be env (stack_id env) cid port w)))
            (snd (snd (get_reply be env (fst (snd (init_sock be env (stack_id env) cid port w)))
               req ans (snd (snd (init_sock be env (stack_id env) cid port w)))))))
   \<and> (fst (init_sock be env (stack_id env) cid port w) \<noteq> 0 \<longrightarrow>
        snd (snd (host_request env be req ans cid port w)) =
          snd (snd (init_sock be env (stack_id env) cid port w)))"
proof -
  let ?h = "host_request env vsock_be req ans cid port w"
  note v = host_request_vsock_sockets [of w env req ans cid port]
  have a: "closed_fds (new_events w (snd (snd ?h))) = opened_fds (new_events w (snd (snd ?h)))"
    using v by blast
  have v2: "closed_fds (new_events w (snd (snd ?h))) =
     (if fst (vsock_get_family env w) \<noteq> - 1 \<and> fst (socket_res env) \<noteq> - 1
      then [fst (socket_res env)] else [])"
    using v by blast
  have b: "length (closed_fds (new_events w (snd (snd ?h)))) \<le> 1"
    unfolding v2 by simp
  have c: "closed_fds (new_events w (snd (snd ?h))) = [fst (socket_res env)]
      \<and> last (trace (snd (snd ?h))) = Close (fst (socket_res env))"
    if s: "fst (vsock_init env (stack_id env) cid port w) = CONN_SUCCESS"
  proof -
    have "fst (vsock_get_family env w) \<noteq> - 1 \<and> fst (socket_res env) \<noteq> - 1"
    proof (rule ccontr)
      assume "\<not> ?thesis"
      then consider "fst (vsock_get_family env w) = - 1"
        | "fst (vsock_get_family env w) \<noteq> - 1" "fst (socket_res env) = - 1"
        by blast
      then show False
      proof cases
        case 1
        from s vsock_init_no_family [OF 1, of "stack_id env" cid port] show False
          by (simp add: CONN_FAILURE_def CONN_SUCCESS_def)
      next
        case 2
        from s vsock_init_socket_fails [OF 2, of "stack_id env" cid port] show False
          by (simp add: CONN_FAILURE_def CONN_SUCCESS_def)
      qed
    qed
    with v2 v s show ?thesis by simp
  qed
  have d: "fst ?h = CONN_FAILURE
      \<and> closed_fds (new_events w (snd (snd ?h))) = [fst (socket_res env)]"
    if n: "fst (vsock_get_family env w) \<noteq> - 1 \<and> fst (socket_res env) \<noteq> - 1
      \<and> fst (connect_res env) \<noteq> 0"
  proof -
    from n have n3: "fst (vsock_get_family env w) \<noteq> - 1" "fst (socket_res env) \<noteq> - 1"
      "fst (connect_res env) \<noteq> 0" by simp_all
    note i = vsock_init_connect_fails [OF n3, of "stack_id env" cid port]
    then have "fst (init_sock vsock_be env (stack_id env) cid port w) \<noteq> 0"
      by (simp add: vsock_be_def CONN_FAILURE_def Let_def)
    from host_request_init_fails [OF this, of req ans] have "fst ?h = CONN_FAILURE"
      by (simp add: vsock_be_def i Let_def)
    with v2 n show ?thesis by simp
  qed
  have e: "count_list (new_events w (snd (snd (host_request env dummy_be req ans cid port w))))
        (Stdout ''dummy_release: released.\<newline>'') = 1"
    by (simp add: host_request_dummy_trace)
  have f: "snd (snd (host_request env be req ans cid port w)) =
          release_sock be env (fst (snd (init_sock be env (stack_id env) cid port w)))
            (snd (snd (get_reply be env (fst (snd (init_sock be env (stack_id env) cid port w)))
               req ans (snd (snd (init_sock be env (stack_id env) cid port w))))))"
    if "fst (init_sock be env (stack_id env) cid port w) = 0"
    by (simp add: host_request_init_ok [OF that] Let_def)
  have g: "snd (snd (host_request env be req ans cid port w)) =
          snd (snd (init_sock be env (stack_id env) cid port w))"
    if "fst (init_sock be env (stack_id env) cid port w) \<noteq> 0"
    by (simp add: host_request_init_fails [OF that])
  from a b c d e f g show ?thesis by blast
qed

theorem C3_release_once_witness:
  "fst (vsock_init env_ok (stack_id env_ok) 2 1234 world0) = CONN_SUCCESS
   \<and> closed_fds (new_events world0 (snd (snd (host_request env_ok vsock_be req0 ans0 2 1234 world0))))
       = [3]
   \<and> opened_fds (new_events world0 (snd (snd (host_request env_ok vsock_be req0 ans0 2 1234 world0))))
       = [3]
   \<and> last (trace (snd (snd (host_request env_ok vsock_be req0 ans0 2 1234 world0)))) = Close 3
   \<and> fst (vsock_get_family (env_ok\<lparr>connect_res := (- 1, 111)\<rparr>) world0) \<noteq> - 1
   \<and> fst (socket_res (env_ok\<lparr>connect_res := (- 1, 111)\<rparr>)) \<noteq> - 1
   \<and> fst (connect_res (env_ok\<lparr>connect_res := (- 1, 111)\<rparr>)) \<noteq> 0
   \<and> fst (host_request (env_ok\<lparr>connect_res := (- 1, 111)\<rparr>) vsock_be req0 ans0 2 1234 world0)
       = CONN_FAILURE
   \<and> closed_fds (new_events world0
        (snd (snd (host_request (env_ok\<lparr>connect_res := (- 1, 111)\<rparr>) vsock_be req0 ans0 2 1234
           world0)))) = [3]
   \<and> fst (init_sock dummy_be env_ok (stack_id env_ok) 2 1234 world0) = 0
   \<and> snd (snd (host_request env_ok dummy_be req0 ans0 2 1234 world0)) =
       release_sock dummy_be env_ok (fst (snd (init_sock dummy_be env_ok (stack_id env_ok) 2 1234 world0)))
         (snd (snd (get_reply dummy_be env_ok
            (fst (snd (init_sock dummy_be env_ok (stack_id env_ok) 2 1234 world0))) req0 ans0
            (snd (snd (init_sock dummy_be env_ok (stack_id env_ok) 2 1234 world0))))))
   \<and> fst (init_sock vsock_be (env_ok\<lparr>connect_res := (- 1, 111)\<rparr>)
        (stack_id (env_ok\<lparr>connect_res := (- 1, 111)\<rparr>)) 2 1234 world0) \<noteq> 0
   \<and> snd (snd (host_request (env_ok\<lparr>connect_res := (- 1, 111)\<rparr>) vsock_be req0 ans0 2 1234 world0)) =
       snd (snd (init_sock vsock_be (env_ok\<lparr>connect_res := (- 1, 111)\<rparr>)
         (stack_id (env_ok\<lparr>connect_res := (- 1, 111)\<rparr>)) 2 1234 world0))"
proof -
  let ?e2 = "env_ok\<lparr>connect_res := (- 1, 111)\<rparr>"
  have "vsock_init env_ok (stack_id env_ok) 2 1234 world0 = (CONN_SUCCESS, sock0, world1)"
    by (rule vsock_init_sample) (simp_all add: env_ok_def)
  then have i1: "fst (vsock_init env_ok (stack_id env_ok) 2 1234 world0) = CONN_SUCCESS"
    by simp
  have sr: "fst (socket_res env_ok) = 3" "fst (socket_res ?e2) = 3"
    by (simp_all add: env_ok_def)
  have f2: "fst (vsock_get_family ?e2 world0) \<noteq> - 1" "fst (socket_res ?e2) \<noteq> - 1"
    "fst (connect_res ?e2) \<noteq> 0"
    by (simp_all add: vsock_get_family_def VMCISock_GetAFValue_def env_ok_def world0_def)
  have i3: "fst (init_sock dummy_be env_ok (stack_id env_ok) 2 1234 world0) = 0"
    by (simp add: dummy_be_def dummy_init_def CONN_SUCCESS_def)
  have i4: "fst (init_sock vsock_be ?e2 (stack_id ?e2) 2 1234 world0) \<noteq> 0"
    using vsock_init_connect_fails [OF f2, of "stack_id ?e2" 2 1234]
    by (simp add: vsock_be_def Let_def CONN_FAILURE_def)
  note t1 = C3_release_once [where w = world0 and env = env_ok and req = req0 and ans = ans0
      and cid = 2 and port = 1234 and be = dummy_be]
  note t2 = C3_release_once [where w = world0 and env = ?e2 and req = req0 and ans = ans0
      and cid = 2 and port = 1234 and be = vsock_be]
  from t1 i1 i3 have a: "closed_fds (new_events world0
        (snd (snd (host_request env_ok vsock_be req0 ans0 2 1234 world0)))) = [3]
   \<and> opened_fds (new_events world0
        (snd (snd (host_request env_ok vsock_be req0 ans0 2 1234 world0)))) = [3]
   \<and> last (trace (snd (snd (host_request env_ok vsock_be req0 ans0 2 1234 world0)))) = Close 3
   \<and> snd (snd (host_request env_ok dummy_be req0 ans0 2 1234 world0)) =
       release_sock dummy_be env_ok (fst (snd (init_sock dummy_be env_ok (stack_id env_ok) 2 1234 world0)))
         (snd (snd (get_reply dummy_be env_ok
            (fst (snd (init_sock dummy_be env_ok (stack_id env_ok) 2 1234 world0))) req0 ans0
            (snd (snd (init_sock dummy_be env_ok (stack_id env_ok) 2 1234 world0))))))"
    unfolding sr by metis
  from t2 f2 i4 have b: "fst (host_request ?e2 vsock_be req0 ans0 2 1234 world0) = CONN_FAILURE
   \<and> closed_fds (new_events world0
        (snd (snd (host_request ?e2 vsock_be req0 ans0 2 1234 world0)))) = [3]
   \<and> snd (snd (host_request ?e2 vsock_be req0 ans0 2 1234 world0)) =
       snd (snd (init_sock vsock_be ?e2 (stack_id ?e2) 2 1234 world0))"
    unfolding sr by blast
  from a b i1 f2 i3 i4 show ?thesis by blast
qed

end
